theory Spec2Isabelle
  imports Complex_Main
begin

section \<open>JavaScript values\<close>

text \<open>
  Payloads and property bags are JSON documents read into JavaScript values. A property
  that is absent reads as \<open>undefined\<close>, so the value type carries it next to the six
  JSON shapes.
\<close>

datatype jsval =
    JUndefined
  | JNull
  | JBool bool
  | JNum rat
  | JStr string
  | JArr "jsval list"
  | JObj "(string \<times> jsval) list"

text \<open>ToBoolean, as used by \<open>if (x)\<close>, \<open>!x\<close>, \<open>x && y\<close> and \<open>x || y\<close>.\<close>

fun truthy :: "jsval \<Rightarrow> bool" where
  "truthy JUndefined = False"
| "truthy JNull = False"
| "truthy (JBool b) = b"
| "truthy (JNum n) = (n \<noteq> 0)"
| "truthy (JStr s) = (s \<noteq> [])"
| "truthy (JArr xs) = True"
| "truthy (JObj kvs) = True"

text \<open>Reading a property of a value that is neither \<open>null\<close> nor \<open>undefined\<close>
  (reading one of those throws, and the callers below branch on it first). Only an
  object has the properties the services ask for. An object is written as the members
  of its JSON text; where a key is repeated the last member stands, as in
  \<open>JSON.parse\<close>.\<close>

fun get_prop :: "jsval \<Rightarrow> string \<Rightarrow> jsval" where
  "get_prop (JObj kvs) k = (case map_of (rev kvs) k of None \<Rightarrow> JUndefined | Some v \<Rightarrow> v)"
| "get_prop v k = JUndefined"

text \<open>A thrown \<open>Error\<close> object (or one of its subclasses) with its message.\<close>

datatype js_error = Error (message: string)

text \<open>\<open>String.prototype.includes\<close> and \<open>String.prototype.startsWith\<close>.\<close>

fun str_includes :: "string \<Rightarrow> string \<Rightarrow> bool" where
  "str_includes [] sub = (sub = [])"
| "str_includes (c # cs) sub = (take (length sub) (c # cs) = sub \<or> str_includes cs sub)"

definition startsWith :: "string \<Rightarrow> string \<Rightarrow> bool" where
  "startsWith s pre = (take (length pre) s = pre)"

text \<open>The decimal rendering of a non-negative integer, as a template literal
  \<open>`${n}`\<close> produces it.\<close>

definition digit_char :: "nat \<Rightarrow> char" where
  "digit_char d = ''0123456789'' ! d"

function string_of_nat :: "nat \<Rightarrow> string" where
  "string_of_nat n =
     (if n < 10 then [digit_char n] else string_of_nat (n div 10) @ [digit_char (n mod 10)])"
  by pat_completeness auto
termination
  by (relation "measure id") auto

section \<open>DataService\<close>

text \<open>
  The repository holds two revisions of the \<open>DataService\<close> class. Both keep the same
  cache, \<open>Map<string, { data, timestamp }>\<close>, and the same \<open>clearCache\<close>; they
  differ in what \<open>fetchData\<close> does with the network. The state below is everything either
  revision reads or writes: the cache, the \<open>authToken\<close> entry of \<open>localStorage\<close>, and
  \<open>window.location.href\<close>.
\<close>

record cache_entry =
  data :: jsval
  timestamp :: int

record service_state =
  cache :: "string \<rightharpoonup> cache_entry"
  authToken :: "string option"
  href :: string

text \<open>What \<open>fetch\<close> was asked for: the URL and the headers sent with it.\<close>

record request =
  request_url :: string
  headers :: "(string \<times> string) list"

text \<open>
  What the network answers. \<open>fetch\<close> either rejects (no connection) or resolves with a
  response; \<open>response.json()\<close> either rejects (the body is not JSON) or resolves with
  the parsed document. \<open>response.ok\<close> is the Fetch standard's flag for a status in
  the range 200 to 299.
\<close>

record response =
  status :: nat
  json :: "js_error + jsval"

datatype fetch_outcome = Rejected js_error | Resolved response

definition ok :: "response \<Rightarrow> bool" where
  "ok r = (200 \<le> status r \<and> status r \<le> 299)"

definition CACHE_DURATION :: int where
  "CACHE_DURATION = 5 * 60 * 1000"

subsection \<open>fetchData, the revision with session handling\<close>

definition fullUrl :: "string \<Rightarrow> string" where
  "fullUrl url = (if startsWith url ''http'' then url else ''http://localhost:8081'' @ url)"

definition auth_headers :: "string option \<Rightarrow> (string \<times> string) list" where
  "auth_headers token =
     (case token of
        None \<Rightarrow> []
      | Some t \<Rightarrow> if t \<noteq> [] then [(''Authorization'', ''Bearer '' @ t)] else [])"

definition build_request :: "service_state \<Rightarrow> string \<Rightarrow> request" where
  "build_request s url =
     \<lparr>request_url = fullUrl url,
      headers = (''Content-Type'', ''application/json'') # auth_headers (authToken s)\<rparr>"

text \<open>
  \<open>cached s url useCache now\<close> is the cache check at the head of \<open>fetchData\<close>: the
  payload to return at once, if there is one.
\<close>

definition cached :: "service_state \<Rightarrow> string \<Rightarrow> bool \<Rightarrow> int \<Rightarrow> jsval option" where
  "cached s url useCache now =
     (if useCache then
        (case cache s url of
           None \<Rightarrow> None
         | Some e \<Rightarrow> if now - timestamp e < CACHE_DURATION then Some (data e) else None)
      else None)"

text \<open>
  One call of \<open>fetchData(url, useCache)\<close>. \<open>now\<close> is \<open>Date.now()\<close> at the cache
  check, \<open>net\<close> the network's answer should the call ask, \<open>stored_at\<close> is
  \<open>Date.now()\<close> when the answer is cached. The result is the promise's outcome
  (\<open>Inl\<close> a rejection), the state afterwards, and the requests issued.
\<close>

definition fetchData ::
  "service_state \<Rightarrow> string \<Rightarrow> bool \<Rightarrow> int \<Rightarrow> fetch_outcome \<Rightarrow> int \<Rightarrow>
     (js_error + jsval) \<times> service_state \<times> request list" where
  "fetchData s url useCache now net stored_at =
     (case cached s url useCache now of
        Some payload \<Rightarrow> (Inr payload, s, [])
      | None \<Rightarrow>
          (let req = build_request s url in
           case net of
             Rejected e \<Rightarrow> (Inl e, s, [req])
           | Resolved r \<Rightarrow>
               if \<not> ok r then
                 (if status r = 401 then
                    (Inl (Error ''Authentication required''),
                     s\<lparr>authToken := None, href := ''/login''\<rparr>, [req])
                  else
                    (Inl (Error (''HTTP error! status: '' @ string_of_nat (status r))), s, [req]))
               else
                 (case json r of
                    Inl e \<Rightarrow> (Inl e, s, [req])
                  | Inr result \<Rightarrow>
                      (Inr result,
                       if useCache
                       then s\<lparr>cache := (cache s)(url \<mapsto> \<lparr>data = result, timestamp = stored_at\<rparr>)\<rparr>
                       else s,
                       [req]))))"


subsection \<open>fetchData, the revision with the mock fallback\<close>

text \<open>
  \<open>getMockData(url)\<close>. The default branch stamps the payload with
  \<open>new Date().toISOString()\<close>, passed in as \<open>iso_now\<close>.
\<close>

definition sales_row :: "string \<Rightarrow> rat \<Rightarrow> rat \<Rightarrow> jsval" where
  "sales_row m s t = JObj [(''month'', JStr m), (''sales'', JNum s), (''target'', JNum t)]"

definition revenue_row :: "string \<Rightarrow> rat \<Rightarrow> jsval" where
  "revenue_row m r = JObj [(''month'', JStr m), (''revenue'', JNum r)]"

definition getMockData :: "string \<Rightarrow> string \<Rightarrow> jsval" where
  "getMockData url iso_now =
     (if str_includes url ''/api/sales'' then
        JArr [sales_row ''Jan'' 4200 4000, sales_row ''Feb'' 3800 4200,
              sales_row ''Mar'' 5100 4500, sales_row ''Apr'' 4600 4300,
              sales_row ''May'' 5400 5000, sales_row ''Jun'' 6200 5500]
      else if str_includes url ''/api/revenue'' then
        JObj [(''total'', JNum 245000), (''growth'', JNum 12.5),
              (''monthlyData'',
               JArr [revenue_row ''Jan'' 38000, revenue_row ''Feb'' 42000,
                     revenue_row ''Mar'' 45000, revenue_row ''Apr'' 41000,
                     revenue_row ''May'' 48000, revenue_row ''Jun'' 51000])]
      else if str_includes url ''/api/users'' then
        JObj [(''total'', JNum 1247), (''active'', JNum 892), (''new'', JNum 156)]
      else if str_includes url ''/api/analytics'' then
        JObj [(''pageViews'', JNum 34500), (''sessions'', JNum 12300),
              (''bounceRate'', JNum 0.23), (''avgSessionDuration'', JNum 245)]
      else
        JObj [(''message'', JStr ''Mock data for development''),
              (''timestamp'', JStr iso_now), (''url'', JStr url)])"

text \<open>
  This revision calls \<open>fetch(url)\<close> with no headers, expects an envelope
  \<open>{ data, success, error }\<close>, and its \<open>catch\<close> block answers every failure
  (a rejected fetch, a status that is not ok, a body that is not JSON, an envelope
  without \<open>success\<close>) with \<open>getMockData(url)\<close>: the promise never rejects.
\<close>

definition fetchData_part_002 ::
  "service_state \<Rightarrow> string \<Rightarrow> bool \<Rightarrow> int \<Rightarrow> fetch_outcome \<Rightarrow> int \<Rightarrow> string \<Rightarrow>
     (js_error + jsval) \<times> service_state \<times> request list" where
  "fetchData_part_002 s url useCache now net stored_at iso_now =
     (case cached s url useCache now of
        Some payload \<Rightarrow> (Inr payload, s, [])
      | None \<Rightarrow>
          (let req = \<lparr>request_url = url, headers = []\<rparr>;
               mock = (Inr (getMockData url iso_now), s, [req])
           in
           case net of
             Rejected e \<Rightarrow> mock
           | Resolved r \<Rightarrow>
               if \<not> ok r then mock
               else
                 (case json r of
                    Inl e \<Rightarrow> mock
                  | Inr JNull \<Rightarrow> mock
                  | Inr JUndefined \<Rightarrow> mock
                  | Inr result \<Rightarrow>
                      if \<not> truthy (get_prop result ''success'') then mock
                      else
                        (Inr (get_prop result ''data''),
                         if useCache
                         then s\<lparr>cache := (cache s)(url \<mapsto>
                                 \<lparr>data = get_prop result ''data'', timestamp = stored_at\<rparr>)\<rparr>
                         else s,
                         [req]))))"

subsection \<open>Reading a call's result\<close>

definition outcome :: "(js_error + jsval) \<times> service_state \<times> request list \<Rightarrow> js_error + jsval" where
  "outcome call = fst call"

definition state_after :: "(js_error + jsval) \<times> service_state \<times> request list \<Rightarrow> service_state" where
  "state_after call = fst (snd call)"

definition requests :: "(js_error + jsval) \<times> service_state \<times> request list \<Rightarrow> request list" where
  "requests call = snd (snd call)"

subsection \<open>clearCache\<close>

text \<open>
  \<open>clearCache(url?)\<close>, the same in both revisions. The argument is absent
  (\<open>None\<close>) or a string; \<open>if (url)\<close> takes the first branch for a string that is
  not empty.
\<close>

definition clearCache :: "service_state \<Rightarrow> string option \<Rightarrow> service_state" where
  "clearCache s url =
     (case url of
        Some u \<Rightarrow> if u \<noteq> [] then s\<lparr>cache := (cache s)(u := None)\<rparr> else s\<lparr>cache := Map.empty\<rparr>
      | None \<Rightarrow> s\<lparr>cache := Map.empty\<rparr>)"

subsection \<open>Writing and deleting a cache entry\<close>

text \<open>\<open>this.cache.set(url, { data, timestamp })\<close> and \<open>this.cache.delete(url)\<close>.\<close>

definition cache_set :: "service_state \<Rightarrow> string \<Rightarrow> jsval \<Rightarrow> int \<Rightarrow> service_state" where
  "cache_set s url payload stored_at =
     s\<lparr>cache := (cache s)(url \<mapsto> \<lparr>data = payload, timestamp = stored_at\<rparr>)\<rparr>"

definition cache_delete :: "service_state \<Rightarrow> string \<Rightarrow> service_state" where
  "cache_delete s url = s\<lparr>cache := (cache s)(url := None)\<rparr>"

section \<open>The layout engine\<close>

subsection \<open>Configuration documents\<close>

text \<open>
  A layout is a JSON document of the shape \<open>ComponentConfig\<close> declares: \<open>type\<close> a
  string, \<open>props\<close> an object, \<open>children\<close> an array of nodes, \<open>id\<close> and \<open>className\<close>
  strings. Nothing checks the document when it is loaded, so every field may be absent
  (it reads as \<open>undefined\<close>) or \<open>null\<close>, a node may be \<open>null\<close>, and \<open>type\<close> may be any
  string, not only one of the eight the interface lists. Values of another JSON shape in
  these places (a number for \<open>children\<close>, say) are outside the declared interface and
  outside this model. Within \<open>props\<close> the engine reads three entries of a page node:
  \<open>navbar\<close> and \<open>sidebar\<close>, which become the \<open>props\<close> of a node of their own, and
  \<open>content\<close>, a nested node. All other entries pass through unread.

  \<open>Config type props children id className\<close> is a node with its five fields in the
  order of the interface, \<open>Props navbar sidebar content rest\<close> a property bag with the
  three entries the engine reads and the list of the others.
\<close>

datatype 'a field = Undefined | Null | Val 'a

datatype config =
    Undefined_config
  | Null_config
  | Config "string field" props "config list field" "string field" "string field"
and props =
    Undefined_props
  | Null_props
  | Props props props config "(string \<times> jsval) list"

record LayoutMetadata =
  layout :: config
  theme :: jsval
  metadata :: jsval

text \<open>ToBoolean of a property bag and of a node: an object is true, \<open>undefined\<close> and
  \<open>null\<close> are false.\<close>

fun truthy_props :: "props \<Rightarrow> bool" where
  "truthy_props (Props navbar sidebar content rest) = True"
| "truthy_props p = False"

fun truthy_config :: "config \<Rightarrow> bool" where
  "truthy_config (Config type props children node_id className) = True"
| "truthy_config c = False"

subsection \<open>The component map\<close>

text \<open>
  \<open>componentMap\<close> is an object literal with eight keys, and \<open>componentMap[type]\<close> is an
  ordinary property read: a key the literal does not have is looked for on
  \<open>Object.prototype\<close>, whose twelve members are all true values. The key read for an
  absent or \<open>null\<close> type is the string \<open>undefined\<close> or \<open>null\<close>.
\<close>

datatype renderer =
    Navbar | Sidebar | Card | Chart | ProjectList | ProjectUpdates | Page | Container
  | Inherited string

definition componentMap :: "(string \<times> renderer) list" where
  "componentMap =
     [(''navbar'', Navbar), (''sidebar'', Sidebar), (''card'', Card), (''chart'', Chart),
      (''projectList'', ProjectList), (''projectUpdates'', ProjectUpdates),
      (''page'', Page), (''container'', Container)]"

definition object_prototype :: "string list" where
  "object_prototype =
     [''constructor'', ''__defineGetter__'', ''__defineSetter__'', ''hasOwnProperty'',
      ''__lookupGetter__'', ''__lookupSetter__'', ''isPrototypeOf'',
      ''propertyIsEnumerable'', ''toString'', ''valueOf'', ''__proto__'',
      ''toLocaleString'']"

definition property_key :: "string field \<Rightarrow> string" where
  "property_key t = (case t of Undefined \<Rightarrow> ''undefined'' | Null \<Rightarrow> ''null'' | Val s \<Rightarrow> s)"

definition lookup_component :: "string field \<Rightarrow> renderer option" where
  "lookup_component t =
     (case map_of componentMap (property_key t) of
        Some c \<Rightarrow> Some c
      | None \<Rightarrow>
          if property_key t \<in> set object_prototype then Some (Inherited (property_key t))
          else None)"

subsection \<open>Rendered elements\<close>

text \<open>
  What \<open>renderComponent\<close> returns, by the branch that built it: the marker for an unknown
  type, the diagnostic of the \<open>catch\<close> block with the message it shows, the page layout
  (navbar slot; then the row of sidebar slot and main area, the main area holding the
  content slot followed by the children), or the component with its rendered children.
  A slot is \<open>None\<close> where \<open>x && ...\<close> left the false value, which React paints as nothing.
  The key is \<open>id || index\<close>.
\<close>

datatype key = KeyString string | KeyIndex int

definition key_of :: "string field \<Rightarrow> int \<Rightarrow> key" where
  "key_of node_id index =
     (case node_id of
        Val s \<Rightarrow> if s \<noteq> [] then KeyString s else KeyIndex index
      | _ \<Rightarrow> KeyIndex index)"

datatype element =
    UnknownComponent key "string field"
  | RenderingError key string
  | PageLayout key "string field" "element option" "element option" "element option"
      "element list"
  | ComponentElement renderer key "string field" props "element list option"

subsection \<open>renderComponent\<close>

text \<open>The defaults of the destructuring pattern, \<open>props = {}\<close> and \<open>children = []\<close>:
  they replace \<open>undefined\<close> only.\<close>

definition default_props :: "props \<Rightarrow> props" where
  "default_props p =
     (case p of
        Undefined_props \<Rightarrow> Props Undefined_props Undefined_props Undefined_config []
      | _ \<Rightarrow> p)"

definition default_children :: "config list field \<Rightarrow> config list field" where
  "default_children c = (case c of Undefined \<Rightarrow> Val [] | _ \<Rightarrow> c)"

text \<open>
  The exceptions the \<open>try\<close> block can raise are the TypeErrors of the runtime for
  destructuring \<open>null\<close> or \<open>undefined\<close> and for reading a property of them. The message
  texts follow the runtime's wording (without its quotation marks); the engine only
  shows a message and tests it for emptiness.
\<close>

definition cannot_destructure :: "string \<Rightarrow> string \<Rightarrow> string \<Rightarrow> js_error" where
  "cannot_destructure property source val =
     Error (''Cannot destructure property '' @ property @ '' of '' @ source @ '' as it is ''
            @ val @ ''.'')"

definition cannot_read :: "string \<Rightarrow> string \<Rightarrow> js_error" where
  "cannot_read val property =
     Error (''Cannot read properties of '' @ val @ '' (reading '' @ property @ '')'')"

text \<open>\<open>const { sidebar, navbar, content, ...pageProps } = props\<close>.\<close>

fun destructure_props :: "props \<Rightarrow> js_error + props \<times> props \<times> config" where
  "destructure_props (Props navbar sidebar content rest) = Inr (navbar, sidebar, content)"
| "destructure_props Null_props = Inl (cannot_destructure ''sidebar'' ''props'' ''null'')"
| "destructure_props Undefined_props =
     Inl (cannot_destructure ''sidebar'' ''props'' ''undefined'')"

lemma destructure_props_size:
  "destructure_props (default_props p) = Inr (n, s, c) \<Longrightarrow>
     (truthy_props n \<longrightarrow> size n < size p) \<and> (truthy_props s \<longrightarrow> size s < size p) \<and>
     size c \<le> size p"
  by (cases p) (auto simp: default_props_def)

text \<open>
  \<open>renderComponent\<close> is the \<open>catch\<close> block around \<open>renderBody\<close>, the \<open>try\<close> block;
  \<open>renderChildren cs k\<close> is \<open>children.map((child, childIndex) => renderComponent(child,
  childIndex))\<close> from index \<open>k\<close> on. Each returns, next to its value, the messages handed
  to \<open>setRenderError\<close> (and, as errors, to \<open>onError\<close>) while it ran, in order. An
  exception leaves the \<open>try\<close> block at once, but the calls made before it have happened.
  Logging to the console is left out.
\<close>

function renderComponent :: "config \<Rightarrow> int \<Rightarrow> element \<times> string list"
  and renderBody :: "config \<Rightarrow> int \<Rightarrow> (js_error + element) \<times> string list"
  and renderChildren :: "config list \<Rightarrow> int \<Rightarrow> element list \<times> string list"
where
  "renderComponent config index =
     (case renderBody config index of
        (Inr el, errs) \<Rightarrow> (el, errs)
      | (Inl error, errs) \<Rightarrow>
          (RenderingError (KeyIndex index) (message error), errs @ [message error]))"
| "renderBody Undefined_config index =
     (Inl (cannot_destructure ''type'' ''config'' ''undefined''), [])"
| "renderBody Null_config index =
     (Inl (cannot_destructure ''type'' ''config'' ''null''), [])"
| "renderBody (Config type props0 children0 node_id className) index =
     (let props = default_props props0; children = default_children children0 in
      case lookup_component type of
        None \<Rightarrow> (Inr (UnknownComponent (key_of node_id index) type), [])
      | Some Component \<Rightarrow>
          if type = Val ''page'' then
            (case destructure_props props of
               Inl error \<Rightarrow> (Inl error, [])
             | Inr (navbar, sidebar, content) \<Rightarrow>
                 (let (nb, errs1) =
                        (if truthy_props navbar
                         then map_prod Some id
                                (renderComponent
                                   (Config (Val ''navbar'') navbar Undefined Undefined Undefined)
                                   (- 1))
                         else (None, []));
                      (sb, errs2) =
                        (if truthy_props sidebar
                         then map_prod Some id
                                (renderComponent
                                   (Config (Val ''sidebar'') sidebar Undefined Undefined Undefined)
                                   (- 2))
                         else (None, []));
                      (ct, errs3) =
                        (if truthy_config content
                         then map_prod Some id (renderComponent content (- 3))
                         else (None, []))
                  in
                  case children of
                    Val cs \<Rightarrow>
                      (let (kids, errs4) = renderChildren cs 0 in
                       (Inr (PageLayout (key_of node_id index) className nb sb ct kids),
                        errs1 @ errs2 @ errs3 @ errs4))
                  | Null \<Rightarrow> (Inl (cannot_read ''null'' ''map''), errs1 @ errs2 @ errs3)
                  | Undefined \<Rightarrow>
                      (Inl (cannot_read ''undefined'' ''map''), errs1 @ errs2 @ errs3)))
          else
            (case children of
               Val [] \<Rightarrow>
                 (Inr (ComponentElement Component (key_of node_id index) className props None),
                  [])
             | Val cs \<Rightarrow>
                 (let (kids, errs) = renderChildren cs 0 in
                  (Inr (ComponentElement Component (key_of node_id index) className props
                          (Some kids)),
                   errs))
             | Null \<Rightarrow> (Inl (cannot_read ''null'' ''length''), [])
             | Undefined \<Rightarrow> (Inl (cannot_read ''undefined'' ''length''), [])))"
| "renderChildren [] childIndex = ([], [])"
| "renderChildren (child # rest) childIndex =
     (let (el, errs) = renderComponent child childIndex;
          (els, errs') = renderChildren rest (childIndex + 1)
      in (el # els, errs @ errs'))"
  by pat_completeness auto

termination
  apply (relation "measure (\<lambda>x. case x of
            Inl (c, i) \<Rightarrow> 2 * size c + 1
          | Inr (Inl (c, i)) \<Rightarrow> 2 * size c
          | Inr (Inr (cs, i)) \<Rightarrow> 2 * size_list size cs + 1)")
  apply (auto simp: default_children_def dest!: destructure_props_size split: field.splits)
  done

subsection \<open>LayoutEngine\<close>

text \<open>
  The component's two state cells, \<open>useState(null)\<close> and \<open>useState(false)\<close>, and what
  one evaluation of the component returns: the loading skeleton, the full-screen
  "Layout Engine Error" screen with the message, the "Invalid Metadata" screen, or the
  rendered layout. The tests run in the source's order. A \<open>renderError\<close> that is the
  empty string is false, like \<open>null\<close>.
\<close>

record engine_state =
  renderError :: "string option"
  isInitialized :: bool

datatype screen = LoadingSkeleton | ErrorScreen string | InvalidMetadata | Layout element

text \<open>\<open>metadata?.layout\<close>.\<close>

definition metadata_layout :: "LayoutMetadata field \<Rightarrow> config" where
  "metadata_layout m = (case m of Val d \<Rightarrow> layout d | _ \<Rightarrow> Undefined_config)"

definition error_flag :: "engine_state \<Rightarrow> string option" where
  "error_flag s = (case renderError s of Some msg \<Rightarrow> if msg \<noteq> [] then Some msg else None | None \<Rightarrow> None)"

definition LayoutEngine :: "engine_state \<Rightarrow> LayoutMetadata field \<Rightarrow> screen \<times> string list" where
  "LayoutEngine s m =
     (if \<not> isInitialized s then (LoadingSkeleton, [])
      else
        (case error_flag s of
           Some msg \<Rightarrow> (ErrorScreen msg, [])
         | None \<Rightarrow>
             if \<not> truthy_config (metadata_layout m) then (InvalidMetadata, [])
             else map_prod Layout id (renderComponent (metadata_layout m) 0)))"

text \<open>
  The state changes around an evaluation: the cells at mount; the timer of the effect,
  100 ms after the metadata is supplied; the \<open>setRenderError\<close> calls made during an
  evaluation, of which the last one stands; and the click on Retry, which clears the
  error and the initialized flag (and starts the timer again).
\<close>

definition initial_state :: engine_state where
  "initial_state = \<lparr>renderError = None, isInitialized = False\<rparr>"

definition timer_fired :: "engine_state \<Rightarrow> engine_state" where
  "timer_fired s = s\<lparr>isInitialized := True\<rparr>"

definition setRenderError :: "engine_state \<Rightarrow> string list \<Rightarrow> engine_state" where
  "setRenderError s errs = (if errs = [] then s else s\<lparr>renderError := Some (last errs)\<rparr>)"

definition retry :: "engine_state \<Rightarrow> engine_state" where
  "retry s = s\<lparr>renderError := None, isInitialized := False\<rparr>"

subsection \<open>The Sidebar component\<close>

text \<open>
  The body of \<open>Sidebar\<close> (Sidebar.tsx), the renderer of the type \<open>sidebar\<close>.
  \<open>renderComponent\<close> only builds the element \<open><Component {...props}>\<close>; the body runs
  when React paints that element, with the element's props, after \<open>renderComponent\<close> has
  returned. Of the \<open>aside\<close> the body returns, the model keeps the buttons of the \<open>nav\<close>,
  each with its key, its variant and its label; the icon, which is chosen after
  \<open>item.icon\<close> has been read, the collapse toggle and the class names are left out.
  \<open>items\<close> defaults to six entries where the property is \<open>undefined\<close>. Reading \<open>icon\<close>
  of an item that is \<open>null\<close> or \<open>undefined\<close> raises a TypeError, and so does \<open>items.map\<close>
  for \<open>items\<close> that are not an array.
\<close>

record nav_button =
  button_key :: jsval
  variant :: string
  label :: jsval

definition default_items :: "jsval list" where
  "default_items =
     [JObj [(''id'', JStr ''dashboard''), (''label'', JStr ''Dashboard''), (''icon'', JStr ''Home''),
            (''active'', JBool True)],
      JObj [(''id'', JStr ''analytics''), (''label'', JStr ''Analytics''),
            (''icon'', JStr ''BarChart3'')],
      JObj [(''id'', JStr ''users''), (''label'', JStr ''Users''), (''icon'', JStr ''Users'')],
      JObj [(''id'', JStr ''reports''), (''label'', JStr ''Reports''),
            (''icon'', JStr ''TrendingUp'')],
      JObj [(''id'', JStr ''charts''), (''label'', JStr ''Charts''), (''icon'', JStr ''PieChart'')],
      JObj [(''id'', JStr ''settings''), (''label'', JStr ''Settings''),
            (''icon'', JStr ''Settings'')]]"

text \<open>The callback of \<open>items.map\<close>, and the map itself, which stops at the first
  exception.\<close>

fun nav_button_of :: "jsval \<Rightarrow> js_error + nav_button" where
  "nav_button_of JNull = Inl (cannot_read ''null'' ''icon'')"
| "nav_button_of JUndefined = Inl (cannot_read ''undefined'' ''icon'')"
| "nav_button_of item =
     Inr \<lparr>button_key = get_prop item ''id'',
          variant = (if truthy (get_prop item ''active'') then ''secondary'' else ''ghost''),
          label = get_prop item ''label''\<rparr>"

fun map_items :: "jsval list \<Rightarrow> js_error + nav_button list" where
  "map_items [] = Inr []"
| "map_items (item # rest) =
     (case nav_button_of item of
        Inl error \<Rightarrow> Inl error
      | Inr button \<Rightarrow>
          (case map_items rest of
             Inl error \<Rightarrow> Inl error
           | Inr buttons \<Rightarrow> Inr (button # buttons)))"

text \<open>The \<open>items\<close> entry of the props the element was given: \<open>{...props}\<close> spreads the
  entries of an object and nothing for \<open>null\<close>.\<close>

definition items_of :: "props \<Rightarrow> jsval" where
  "items_of p =
     (case p of
        Props navbar sidebar content rest \<Rightarrow> get_prop (JObj rest) ''items''
      | _ \<Rightarrow> JUndefined)"

definition Sidebar_body :: "props \<Rightarrow> js_error + nav_button list" where
  "Sidebar_body p =
     (case items_of p of
        JUndefined \<Rightarrow> map_items default_items
      | JArr items \<Rightarrow> map_items items
      | JNull \<Rightarrow> Inl (cannot_read ''null'' ''map'')
      | _ \<Rightarrow> Inl (Error ''items.map is not a function''))"

subsection \<open>Reading a rendered tree\<close>

text \<open>
  The elements directly inside an element, in document order, and all elements of a
  tree in that order. The main area of a page layout holds the content slot and then the
  children.
\<close>

fun option_list :: "'a option \<Rightarrow> 'a list" where
  "option_list None = []"
| "option_list (Some x) = [x]"

fun main_area :: "element \<Rightarrow> element list" where
  "main_area (PageLayout k c nb sb ct kids) = option_list ct @ kids"
| "main_area e = []"

fun child_elements :: "element \<Rightarrow> element list" where
  "child_elements (PageLayout k c nb sb ct kids) =
     option_list nb @ option_list sb @ option_list ct @ kids"
| "child_elements (ComponentElement r k c p kids) = (case kids of None \<Rightarrow> [] | Some ks \<Rightarrow> ks)"
| "child_elements e = []"

lemma child_elements_size: "x \<in> set (child_elements e) \<Longrightarrow> size x < size e"
proof -
  have l: "\<And>xs. x \<in> set xs \<Longrightarrow> size x < Suc (size_list size xs)"
  proof -
    fix xs show "x \<in> set xs \<Longrightarrow> size x < Suc (size_list size xs)"
      by (induction xs) auto
  qed
  have opt: "\<And>slot. x \<in> set (option_list slot) \<Longrightarrow> size x < Suc (size_option size slot)"
  proof -
    fix slot show "x \<in> set (option_list slot) \<Longrightarrow> size x < Suc (size_option size slot)"
      by (cases slot) simp_all
  qed
  assume "x \<in> set (child_elements e)"
  then show ?thesis
    by (cases e) (auto dest!: l opt split: option.splits)
qed

fun is_rendered :: "element \<Rightarrow> bool" where
  "is_rendered (PageLayout k c nb sb ct kids) = True"
| "is_rendered (ComponentElement r k c p kids) = True"
| "is_rendered e = False"

fun is_marker :: "element \<Rightarrow> bool" where
  "is_marker (UnknownComponent k t) = True"
| "is_marker e = False"

fun is_error :: "element \<Rightarrow> bool" where
  "is_error (RenderingError k msg) = True"
| "is_error e = False"

function elements_of :: "element \<Rightarrow> element list" where
  "elements_of e = e # concat (map elements_of (child_elements e))"
  by pat_completeness auto
termination
  by (relation "measure size") (auto dest: child_elements_size)

declare elements_of.simps [simp del]

definition count_rendered :: "element \<Rightarrow> nat" where
  "count_rendered e = length (filter is_rendered (elements_of e))"

definition count_markers :: "element \<Rightarrow> nat" where
  "count_markers e = length (filter is_marker (elements_of e))"

definition contains_error :: "element \<Rightarrow> bool" where
  "contains_error e = list_ex is_error (elements_of e)"

subsection \<open>Reading a configuration tree\<close>

text \<open>
  The nodes of a configuration tree: a node, the nodes of its \<open>children\<close>, and for a page
  node the nodes of its \<open>props.content\<close>. The \<open>navbar\<close> and \<open>sidebar\<close> entries of a page
  node are property bags, not nodes; \<open>count_bars\<close> counts them. A node is valid when it
  has the declared shape: a \<open>type\<close> string, \<open>props\<close> and \<open>children\<close> absent or present
  but not \<open>null\<close>.
\<close>

fun page_navbar :: "config \<Rightarrow> props" where
  "page_navbar (Config type (Props navbar sidebar content rest) children node_id className) =
     (if type = Val ''page'' then navbar else Undefined_props)"
| "page_navbar c = Undefined_props"

fun page_sidebar :: "config \<Rightarrow> props" where
  "page_sidebar (Config type (Props navbar sidebar content rest) children node_id className) =
     (if type = Val ''page'' then sidebar else Undefined_props)"
| "page_sidebar c = Undefined_props"

fun page_content :: "config \<Rightarrow> config" where
  "page_content (Config type (Props navbar sidebar content rest) children node_id className) =
     (if type = Val ''page'' then content else Undefined_config)"
| "page_content c = Undefined_config"

fun child_nodes :: "config \<Rightarrow> config list" where
  "child_nodes (Config type props (Val cs) node_id className) = cs"
| "child_nodes c = []"

definition sub_nodes :: "config \<Rightarrow> config list" where
  "sub_nodes c =
     (if truthy_config (page_content c) then [page_content c] else []) @ child_nodes c"

lemma sub_nodes_size: "x \<in> set (sub_nodes c) \<Longrightarrow> size x < size c"
proof -
  have l: "\<And>xs. x \<in> set xs \<Longrightarrow> size x < Suc (size_list size xs)"
  proof -
    fix xs show "x \<in> set xs \<Longrightarrow> size x < Suc (size_list size xs)"
      by (induction xs) auto
  qed
  have ch: "x \<in> set (child_nodes c) \<Longrightarrow> size x < size c"
    by (induction c rule: child_nodes.induct) (auto dest!: l)
  have ct: "truthy_config (page_content c) \<Longrightarrow> size (page_content c) < size c"
    by (induction c rule: page_content.induct) (auto split: if_splits)
  assume "x \<in> set (sub_nodes c)"
  with ch ct show ?thesis
    by (auto simp: sub_nodes_def split: if_splits)
qed









subsection \<open>The example of the specification\<close>

text \<open>
  \<open>{type: "page", props: {navbar: {}, sidebar: {}, content: {type: "card", props: {title:
  "X"}}}, children: [{type: "card", props: {title: "Y"}}]}\<close>
\<close>

definition empty_props :: props where
  "empty_props = Props Undefined_props Undefined_props Undefined_config []"

definition card_node :: "string \<Rightarrow> config" where
  "card_node title =
     Config (Val ''card'')
       (Props Undefined_props Undefined_props Undefined_config [(''title'', JStr title)])
       Undefined Undefined Undefined"

definition example_page :: config where
  "example_page =
     Config (Val ''page'') (Props empty_props empty_props (card_node ''X'') []) (Val [card_node ''Y''])
       Undefined Undefined"

text \<open>A container whose second child is \<open>null\<close>, and the message of the TypeError that
  destructuring \<open>null\<close> raises.\<close>

definition broken_container :: config where
  "broken_container =
     Config (Val ''container'') Undefined_props (Val [card_node ''a'', Null_config, card_node ''b''])
       Undefined Undefined"

definition null_message :: string where
  "null_message = message (cannot_destructure ''type'' ''config'' ''null'')"

definition broken_metadata :: "LayoutMetadata field" where
  "broken_metadata = Val \<lparr>layout = broken_container, theme = JUndefined, metadata = JUndefined\<rparr>"

definition example_metadata :: "LayoutMetadata field" where
  "example_metadata = Val \<lparr>layout = example_page, theme = JUndefined, metadata = JUndefined\<rparr>"

text \<open>A sidebar whose list of items holds \<open>null\<close>, \<open>{type: "sidebar", props: {items:
  [null]}}\<close>, between two cards in a container.\<close>

definition null_item_props :: props where
  "null_item_props =
     Props Undefined_props Undefined_props Undefined_config [(''items'', JArr [JNull])]"

definition null_item_sidebar :: config where
  "null_item_sidebar = Config (Val ''sidebar'') null_item_props Undefined Undefined Undefined"

definition null_item_container :: config where
  "null_item_container =
     Config (Val ''container'') Undefined_props
       (Val [card_node ''a'', null_item_sidebar, card_node ''b'']) Undefined Undefined"

definition null_item_metadata :: "LayoutMetadata field" where
  "null_item_metadata =
     Val \<lparr>layout = null_item_container, theme = JUndefined, metadata = JUndefined\<rparr>"

text \<open>A node of a type the component map has no key for, but \<open>Object.prototype\<close> has:
  \<open>{type: "toString", children: [{type: "card", props: {title: "Z"}}]}\<close>, alone and
  between two cards in a container.\<close>

definition inherited_node :: config where
  "inherited_node =
     Config (Val ''toString'') Undefined_props (Val [card_node ''Z'']) Undefined Undefined"

definition inherited_container :: config where
  "inherited_container =
     Config (Val ''container'') Undefined_props
       (Val [card_node ''a'', inherited_node, card_node ''b'']) Undefined Undefined"

section \<open>Properties of the DataService\<close>

subsection \<open>Clearing the cache\<close>

lemma clearCache_locator:
  "u \<noteq> [] \<Longrightarrow> cache (clearCache s (Some u)) = (cache s)(u := None)"
  by (simp add: clearCache_def)

lemma clearCache_all: "cache (clearCache s None) = Map.empty"
  by (simp add: clearCache_def)

lemma clearCache_frame:
  "authToken (clearCache s url) = authToken s \<and> href (clearCache s url) = href s"
  by (simp add: clearCache_def split: option.splits)

text \<open>
  C10. \<open>clearCache(L)\<close> is to remove the entry of \<open>L\<close> and leave every other entry as
  it was. For the empty locator it does not: \<open>if (url)\<close> is false for the empty string,
  so \<open>clearCache("")\<close> runs \<open>this.cache.clear()\<close> and the entry of \<open>/api/x\<close> is gone
  as well.
\<close>

theorem clearCache_empty_locator:
  "cache (clearCache
            \<lparr>cache = [[] \<mapsto> \<lparr>data = JStr ''root'', timestamp = 10\<rparr>,
                       ''/api/x'' \<mapsto> \<lparr>data = JStr ''x'', timestamp = 20\<rparr>],
             authToken = None, href = ''/''\<rparr>
            (Some [])) ''/api/x'' = None"
  by (simp add: clearCache_def)

subsection \<open>Unauthorized responses\<close>

text \<open>
  C7. A call that goes to the network and receives status 401 removes the stored token,
  points the browser at the login page, and rejects with "Authentication required" after
  that one request (there is no retry). In a state without a token, as the one this call
  leaves, no request of any call carries an \<open>Authorization\<close> header.
\<close>

theorem fetchData_unauthorized:
  assumes "cached s url useCache now = None" and "net = Resolved r" and "status r = 401"
  shows "fetchData s url useCache now net stored_at =
           (Inl (Error ''Authentication required''),
            s\<lparr>authToken := None, href := ''/login''\<rparr>, [build_request s url])
         \<and> authToken (state_after (fetchData s url useCache now net stored_at)) = None
         \<and> (\<forall>s' url' useCache' now' net' stored_at' req.
               authToken s' = None \<and>
               req \<in> set (requests (fetchData s' url' useCache' now' net' stored_at')) \<longrightarrow>
               map_of (headers req) ''Authorization'' = None)"
proof (intro conjI)
  from assms show c: "fetchData s url useCache now net stored_at =
           (Inl (Error ''Authentication required''),
            s\<lparr>authToken := None, href := ''/login''\<rparr>, [build_request s url])"
    by (simp add: fetchData_def ok_def)
  then show "authToken (state_after (fetchData s url useCache now net stored_at)) = None"
    by (simp add: state_after_def)
  show "\<forall>s' url' useCache' now' net' stored_at' req.
               authToken s' = None \<and>
               req \<in> set (requests (fetchData s' url' useCache' now' net' stored_at')) \<longrightarrow>
               map_of (headers req) ''Authorization'' = None"
    by (auto simp: fetchData_def requests_def build_request_def auth_headers_def Let_def
             split: option.splits fetch_outcome.splits sum.splits if_splits)
qed

theorem fetchData_unauthorized_witness:
  "cached \<lparr>cache = Map.empty, authToken = Some ''tok'', href = ''/''\<rparr> ''/api/x'' True 0 = None
   \<and> fetchData \<lparr>cache = Map.empty, authToken = Some ''tok'', href = ''/''\<rparr> ''/api/x'' True 0
        (Resolved \<lparr>status = 401, json = Inr JNull\<rparr>) 1 =
      (Inl (Error ''Authentication required''),
       \<lparr>cache = Map.empty, authToken = None, href = ''/login''\<rparr>,
       [\<lparr>request_url = ''http://localhost:8081/api/x'',
         headers = [(''Content-Type'', ''application/json''), (''Authorization'', ''Bearer tok'')]\<rparr>])
   \<and> requests (fetchData \<lparr>cache = Map.empty, authToken = None, href = ''/login''\<rparr> ''/api/x''
        True 2 (Resolved \<lparr>status = 200, json = Inr (JStr ''v'')\<rparr>) 3) =
      [\<lparr>request_url = ''http://localhost:8081/api/x'',
        headers = [(''Content-Type'', ''application/json'')]\<rparr>]
   \<and> map_of [(''Content-Type'', ''application/json'')] ''Authorization'' = None"
proof -
  let ?s = "\<lparr>cache = Map.empty, authToken = Some ''tok'', href = ''/''\<rparr>"
  let ?s' = "\<lparr>cache = Map.empty, authToken = None, href = ''/login''\<rparr>"
  let ?req = "\<lparr>request_url = ''http://localhost:8081/api/x'',
               headers = [(''Content-Type'', ''application/json'')]\<rparr>"
  have h: "cached ?s ''/api/x'' True 0 = None"
    by (simp add: cached_def)
  have q: "requests (fetchData ?s' ''/api/x'' True 2
                       (Resolved \<lparr>status = 200, json = Inr (JStr ''v'')\<rparr>) 3) = [?req]"
    by (simp add: fetchData_def cached_def ok_def build_request_def auth_headers_def
                  fullUrl_def startsWith_def requests_def)
  have st: "status \<lparr>status = 401, json = Inr JNull\<rparr> = 401" by simp
  note u = fetchData_unauthorized [OF h refl st, of 1]
  from u have first: "fetchData ?s ''/api/x'' True 0 (Resolved \<lparr>status = 401, json = Inr JNull\<rparr>) 1 =
      (Inl (Error ''Authentication required''), ?s',
       [\<lparr>request_url = ''http://localhost:8081/api/x'',
         headers = [(''Content-Type'', ''application/json''), (''Authorization'', ''Bearer tok'')]\<rparr>])"
    by (simp add: build_request_def auth_headers_def fullUrl_def startsWith_def)
  have "authToken ?s' = None \<and> ?req \<in> set (requests (fetchData ?s' ''/api/x'' True 2
                       (Resolved \<lparr>status = 200, json = Inr (JStr ''v'')\<rparr>) 3))"
    using q by simp
  with u have "map_of (headers ?req) ''Authorization'' = None"
    by blast
  with h first q show ?thesis by simp
qed

subsection \<open>Statuses that are not ok\<close>

lemma string_of_nat_not_Nil: "string_of_nat n \<noteq> []"
  by (subst string_of_nat.simps) simp

lemma string_of_nat_last: "last (string_of_nat n) = digit_char (n mod 10)"
  by (subst string_of_nat.simps) simp

lemma string_of_nat_butlast:
  "butlast (string_of_nat n) = (if n < 10 then [] else string_of_nat (n div 10))"
  by (subst string_of_nat.simps) (simp add: butlast_append)

lemma digit_char_inj: "a < 10 \<Longrightarrow> b < 10 \<Longrightarrow> digit_char a = digit_char b \<Longrightarrow> a = b"
proof -
  assume a: "a < 10" and b: "b < 10" and e: "digit_char a = digit_char b"
  have d: "distinct ''0123456789''" by simp
  have "length ''0123456789'' = 10" by simp
  with a b e d show "a = b"
    unfolding digit_char_def by (metis nth_eq_iff_index_eq)
qed

text \<open>The message of the error names the status: different statuses give different
  messages.\<close>

lemma string_of_nat_inj: "string_of_nat m = string_of_nat n \<Longrightarrow> m = n"
proof (induction m arbitrary: n rule: string_of_nat.induct)
  case (1 m)
  from "1.prems" have l: "digit_char (m mod 10) = digit_char (n mod 10)"
    by (metis string_of_nat_last)
  then have md: "m mod 10 = n mod 10"
    by (intro digit_char_inj) auto
  from "1.prems" have bl: "butlast (string_of_nat m) = butlast (string_of_nat n)"
    by simp
  show ?case
  proof (cases "m < 10")
    case True
    with bl have "n < 10"
      by (auto simp: string_of_nat_butlast string_of_nat_not_Nil split: if_splits
               dest: sym [of "[]"])
    with True md show ?thesis by simp
  next
    case False
    with bl have n10: "\<not> n < 10"
      by (auto simp: string_of_nat_butlast string_of_nat_not_Nil split: if_splits)
    with False bl have "string_of_nat (m div 10) = string_of_nat (n div 10)"
      by (simp add: string_of_nat_butlast)
    with False "1.IH" have "m div 10 = n div 10" by simp
    with md show ?thesis
      by (metis div_mult_mod_eq)
  qed
qed

text \<open>
  C6, as the claim has it, fails on the revision with the mock fallback: a status 500
  for \<open>/api/users\<close> resolves with the mock user counts.
\<close>

theorem fetchData_part_002_http_error:
  "fetchData_part_002 \<lparr>cache = Map.empty, authToken = None, href = ''/''\<rparr> ''/api/users'' True 0
     (Resolved \<lparr>status = 500, json = Inl (Error ''Unexpected token'')\<rparr>) 1 ''2024-01-01T00:00:00.000Z'' =
   (Inr (JObj [(''total'', JNum 1247), (''active'', JNum 892), (''new'', JNum 156)]),
    \<lparr>cache = Map.empty, authToken = None, href = ''/''\<rparr>,
    [\<lparr>request_url = ''/api/users'', headers = []\<rparr>])"
  by (simp add: fetchData_part_002_def cached_def ok_def getMockData_def)

text \<open>
  C6, amended. A call that goes to the network and receives a status outside 200 to 299
  other than 401: in the revision with session handling it rejects with the error
  "HTTP error! status: N" for that status N, after one request and with the state
  unchanged; in the revision with the mock fallback the same answer resolves with
  \<open>getMockData(url)\<close>.
\<close>

theorem fetchData_http_error:
  assumes "cached s url useCache now = None" and "net = Resolved r"
    and "\<not> ok r" and "status r \<noteq> 401"
  shows "fetchData s url useCache now net stored_at =
           (Inl (Error (''HTTP error! status: '' @ string_of_nat (status r))), s,
            [build_request s url])
         \<and> fetchData_part_002 s url useCache now net stored_at iso_now =
           (Inr (getMockData url iso_now), s, [\<lparr>request_url = url, headers = []\<rparr>])"
  using assms by (simp add: fetchData_def fetchData_part_002_def)

theorem fetchData_http_error_witness:
  "cached \<lparr>cache = Map.empty, authToken = None, href = ''/''\<rparr> ''/api/x'' True 0 = None
   \<and> \<not> ok \<lparr>status = 503, json = Inr JNull\<rparr>
   \<and> fetchData \<lparr>cache = Map.empty, authToken = None, href = ''/''\<rparr> ''/api/x'' True 0
        (Resolved \<lparr>status = 503, json = Inr JNull\<rparr>) 1 =
      (Inl (Error ''HTTP error! status: 503''),
       \<lparr>cache = Map.empty, authToken = None, href = ''/''\<rparr>,
       [\<lparr>request_url = ''http://localhost:8081/api/x'',
         headers = [(''Content-Type'', ''application/json'')]\<rparr>])"
proof -
  let ?s = "\<lparr>cache = Map.empty, authToken = None, href = ''/''\<rparr>"
  let ?r = "\<lparr>status = 503, json = Inr JNull\<rparr>"
  have h1: "cached ?s ''/api/x'' True 0 = None" by (simp add: cached_def)
  have h2: "\<not> ok ?r" by (simp add: ok_def)
  have h3: "status ?r \<noteq> 401" by simp
  from fetchData_http_error [OF h1 refl h2 h3, of 1 "[]"] h1 h2
  show ?thesis
    by (simp add: build_request_def auth_headers_def fullUrl_def startsWith_def digit_char_def)
qed

subsection \<open>The cache window\<close>

lemma cached_fresh_iff:
  "cached s url True now = Some payload \<longleftrightarrow>
     (\<exists>e. cache s url = Some e \<and> now - timestamp e < 5 * 60 * 1000 \<and> payload = data e)"
  by (auto simp: cached_def CACHE_DURATION_def split: option.splits)

lemma fetchData_hit:
  "cached s url useCache now = Some payload \<Longrightarrow>
     fetchData s url useCache now net stored_at = (Inr payload, s, [])"
  by (simp add: fetchData_def)

lemma fetchData_miss_requests:
  "cached s url useCache now = None \<Longrightarrow>
     requests (fetchData s url useCache now net stored_at) = [build_request s url]"
  by (auto simp: fetchData_def requests_def Let_def split: fetch_outcome.splits sum.splits)

lemma fetchData_requests_le: "length (requests (fetchData s url useCache now net stored_at)) \<le> 1"
  by (cases "cached s url useCache now")
     (simp_all add: fetchData_hit fetchData_miss_requests, simp add: requests_def)

lemma fetchData_miss_success:
  assumes "cached s url True now = None" and "net = Resolved r" and "ok r"
    and "json r = Inr payload"
  shows "fetchData s url True now net stored_at =
           (Inr payload,
            s\<lparr>cache := (cache s)(url \<mapsto> \<lparr>data = payload, timestamp = stored_at\<rparr>)\<rparr>,
            [build_request s url])"
  using assms by (simp add: fetchData_def)

lemma cached_after_store:
  "now - stored_at < CACHE_DURATION \<Longrightarrow>
     cached (s\<lparr>cache := (cache s)(url \<mapsto> \<lparr>data = payload, timestamp = stored_at\<rparr>)\<rparr>)
       url True now = Some payload"
  by (simp add: cached_def)

lemma fetchData_part_002_hit:
  "cached s url useCache now = Some payload \<Longrightarrow>
     fetchData_part_002 s url useCache now net stored_at iso_now = (Inr payload, s, [])"
  by (simp add: fetchData_part_002_def)

lemma fetchData_part_002_miss_requests:
  "cached s url useCache now = None \<Longrightarrow>
     requests (fetchData_part_002 s url useCache now net stored_at iso_now) =
       [\<lparr>request_url = url, headers = []\<rparr>]"
  by (auto simp: fetchData_part_002_def requests_def Let_def
           split: fetch_outcome.splits sum.splits jsval.splits)

lemma fetchData_part_002_requests_le:
  "length (requests (fetchData_part_002 s url useCache now net stored_at iso_now)) \<le> 1"
  by (cases "cached s url useCache now")
     (simp_all add: fetchData_part_002_hit fetchData_part_002_miss_requests, simp add: requests_def)

lemma fetchData_part_002_miss_success:
  assumes "cached s url True now = None" and "net = Resolved r" and "ok r"
    and "json r = Inr (JObj envelope)" and "truthy (get_prop (JObj envelope) ''success'')"
  shows "fetchData_part_002 s url True now net stored_at iso_now =
           (Inr (get_prop (JObj envelope) ''data''),
            s\<lparr>cache := (cache s)(url \<mapsto>
                 \<lparr>data = get_prop (JObj envelope) ''data'', timestamp = stored_at\<rparr>)\<rparr>,
            [\<lparr>request_url = url, headers = []\<rparr>])"
  using assms by (simp add: fetchData_part_002_def)

lemma fetchData_sequential:
  assumes net1: "net1 = Resolved r1" "ok r1" "json r1 = Inr payload"
    and window: "now2 - stored1 < CACHE_DURATION"
  shows "length (requests (fetchData s url True now1 net1 stored1) @
                 requests (fetchData (state_after (fetchData s url True now1 net1 stored1))
                             url True now2 net2 stored2)) \<le> 1
         \<and> (requests (fetchData s url True now1 net1 stored1) \<noteq> [] \<longrightarrow>
              fetchData (state_after (fetchData s url True now1 net1 stored1))
                 url True now2 net2 stored2 =
              (Inr payload, state_after (fetchData s url True now1 net1 stored1), []))"
proof (cases "cached s url True now1")
  case None
  let ?s1 = "s\<lparr>cache := (cache s)(url \<mapsto> \<lparr>data = payload, timestamp = stored1\<rparr>)\<rparr>"
  have c1: "fetchData s url True now1 net1 stored1 = (Inr payload, ?s1, [build_request s url])"
    by (rule fetchData_miss_success [OF None net1])
  from window have "cached ?s1 url True now2 = Some payload"
    by (rule cached_after_store)
  from fetchData_hit [OF this] c1 show ?thesis
    by (simp add: requests_def state_after_def)
next
  case (Some p)
  from fetchData_hit [OF Some]
  have c1: "fetchData s url True now1 net1 stored1 = (Inr p, s, [])" .
  with fetchData_requests_le [of s url True now2 net2 stored2] show ?thesis
    by (simp add: requests_def state_after_def)
qed

lemma fetchData_part_002_sequential:
  assumes net1: "net1 = Resolved r1" "ok r1" "json r1 = Inr (JObj envelope)"
      "truthy (get_prop (JObj envelope) ''success'')"
    and window: "now2 - stored1 < CACHE_DURATION"
  shows "length (requests (fetchData_part_002 s url True now1 net1 stored1 iso1) @
                 requests (fetchData_part_002
                             (state_after (fetchData_part_002 s url True now1 net1 stored1 iso1))
                             url True now2 net2 stored2 iso2)) \<le> 1
         \<and> (requests (fetchData_part_002 s url True now1 net1 stored1 iso1) \<noteq> [] \<longrightarrow>
              fetchData_part_002
                 (state_after (fetchData_part_002 s url True now1 net1 stored1 iso1))
                 url True now2 net2 stored2 iso2 =
              (Inr (get_prop (JObj envelope) ''data''),
               state_after (fetchData_part_002 s url True now1 net1 stored1 iso1), []))"
proof (cases "cached s url True now1")
  case None
  let ?d = "get_prop (JObj envelope) ''data''"
  let ?s1 = "s\<lparr>cache := (cache s)(url \<mapsto> \<lparr>data = ?d, timestamp = stored1\<rparr>)\<rparr>"
  have c1: "fetchData_part_002 s url True now1 net1 stored1 iso1 =
              (Inr ?d, ?s1, [\<lparr>request_url = url, headers = []\<rparr>])"
    by (rule fetchData_part_002_miss_success [OF None net1])
  from window have "cached ?s1 url True now2 = Some ?d"
    by (rule cached_after_store)
  from fetchData_part_002_hit [OF this] c1 show ?thesis
    by (simp add: requests_def state_after_def)
next
  case (Some p)
  from fetchData_part_002_hit [OF Some]
  have c1: "fetchData_part_002 s url True now1 net1 stored1 iso1 = (Inr p, s, [])" .
  with fetchData_part_002_requests_le [of s url True now2 net2 stored2 iso2] show ?thesis
    by (simp add: requests_def state_after_def)
qed

lemma fetchData_stale:
  assumes "cache s url = Some e" and "\<not> now - timestamp e < CACHE_DURATION"
  shows "cached s url True now = None
     \<and> requests (fetchData s url True now net stored_at) = [build_request s url]
     \<and> outcome (fetchData s url True now net stored_at) =
         outcome (fetchData (s\<lparr>cache := (cache s)(url := None)\<rparr>) url True now net stored_at)
     \<and> requests (fetchData_part_002 s url True now net stored_at iso_now) =
         [\<lparr>request_url = url, headers = []\<rparr>]
     \<and> outcome (fetchData_part_002 s url True now net stored_at iso_now) =
         outcome (fetchData_part_002 (s\<lparr>cache := (cache s)(url := None)\<rparr>) url True now net
                    stored_at iso_now)"
proof -
  from assms have c: "cached s url True now = None" by (simp add: cached_def)
  have c': "cached (s\<lparr>cache := (cache s)(url := None)\<rparr>) url True now = None"
    by (simp add: cached_def)
  have "outcome (fetchData s url True now net stored_at) =
         outcome (fetchData (s\<lparr>cache := (cache s)(url := None)\<rparr>) url True now net stored_at)"
    using c c'
    by (auto simp: fetchData_def outcome_def Let_def split: fetch_outcome.splits sum.splits)
  moreover have "outcome (fetchData_part_002 s url True now net stored_at iso_now) =
         outcome (fetchData_part_002 (s\<lparr>cache := (cache s)(url := None)\<rparr>) url True now net
                    stored_at iso_now)"
    using c c'
    by (auto simp: fetchData_part_002_def outcome_def Let_def
             split: fetch_outcome.splits sum.splits jsval.splits)
  ultimately show ?thesis
    using c fetchData_miss_requests [OF c] fetchData_part_002_miss_requests [OF c] by simp
qed

lemma cache_set_entry: "cache (cache_set s url payload stored_at) url =
    Some \<lparr>data = payload, timestamp = stored_at\<rparr>"
  by (simp add: cache_set_def)

lemma fetchData_stale':
  assumes "cache s url = Some e" and "\<not> now - timestamp e < CACHE_DURATION"
  shows "requests (fetchData s url True now net stored_at) = [build_request s url]
     \<and> outcome (fetchData s url True now net stored_at) =
         outcome (fetchData (cache_delete s url) url True now net stored_at)"
    and "requests (fetchData_part_002 s url True now net stored_at iso_now) =
         [\<lparr>request_url = url, headers = []\<rparr>]
     \<and> outcome (fetchData_part_002 s url True now net stored_at iso_now) =
         outcome (fetchData_part_002 (cache_delete s url) url True now net stored_at iso_now)"
  using fetchData_stale [OF assms, of net stored_at iso_now]
  by (simp_all add: cache_delete_def)

lemma fetchData_expiry:
  assumes miss: "cached s url True now1 = None"
    and net1: "net1 = Resolved r1" "ok r1" "json r1 = Inr payload"
    and late: "\<not> now3 - stored1 < CACHE_DURATION"
  shows "requests (fetchData (state_after (fetchData s url True now1 net1 stored1))
                     url True now3 net3 stored3) =
           [build_request (state_after (fetchData s url True now1 net1 stored1)) url]
     \<and> outcome (fetchData (state_after (fetchData s url True now1 net1 stored1))
                   url True now3 net3 stored3) =
         outcome (fetchData
                    (cache_delete (state_after (fetchData s url True now1 net1 stored1)) url)
                    url True now3 net3 stored3)"
proof -
  have st: "state_after (fetchData s url True now1 net1 stored1) = cache_set s url payload stored1"
    by (simp add: fetchData_miss_success [OF miss net1] state_after_def cache_set_def)
  have l: "\<not> now3 - timestamp \<lparr>data = payload, timestamp = stored1\<rparr> < CACHE_DURATION"
    using late by simp
  show ?thesis
    unfolding st by (rule fetchData_stale' (1) [OF cache_set_entry l])
qed

lemma fetchData_part_002_expiry:
  assumes miss: "cached s url True now1 = None"
    and net1: "net1 = Resolved r1" "ok r1" "json r1 = Inr (JObj envelope)"
      "truthy (get_prop (JObj envelope) ''success'')"
    and late: "\<not> now3 - stored1 < CACHE_DURATION"
  shows "requests (fetchData_part_002
                     (state_after (fetchData_part_002 s url True now1 net1 stored1 iso1))
                     url True now3 net3 stored3 iso3) =
           [\<lparr>request_url = url, headers = []\<rparr>]
     \<and> outcome (fetchData_part_002
                   (state_after (fetchData_part_002 s url True now1 net1 stored1 iso1))
                   url True now3 net3 stored3 iso3) =
         outcome (fetchData_part_002
                    (cache_delete
                       (state_after (fetchData_part_002 s url True now1 net1 stored1 iso1)) url)
                    url True now3 net3 stored3 iso3)"
proof -
  have st: "state_after (fetchData_part_002 s url True now1 net1 stored1 iso1) =
              cache_set s url (get_prop (JObj envelope) ''data'') stored1"
    by (simp add: fetchData_part_002_miss_success [OF miss net1] state_after_def cache_set_def)
  have l: "\<not> now3 - timestamp \<lparr>data = get_prop (JObj envelope) ''data'', timestamp = stored1\<rparr>
              < CACHE_DURATION"
    using late by simp
  show ?thesis
    unfolding st by (rule fetchData_stale' (2) [OF cache_set_entry l])
qed

lemma fetchData_overlap:
  assumes "cached s url True now1 = None" and "cached s url True now2 = None"
  shows "requests (fetchData s url True now1 net1 stored1) @
         requests (fetchData s url True now2 net2 stored2) =
           [build_request s url, build_request s url]"
    and "requests (fetchData_part_002 s url True now1 net1 stored1 iso1) @
         requests (fetchData_part_002 s url True now2 net2 stored2 iso2) =
           [\<lparr>request_url = url, headers = []\<rparr>, \<lparr>request_url = url, headers = []\<rparr>]"
  using assms by (simp_all add: fetchData_miss_requests fetchData_part_002_miss_requests)

text \<open>
  C5, as the claim has it, fails when the first call does not succeed: only a successful
  answer is cached. Here the first call receives status 500, the second call comes one
  second later, and both go to the network.
\<close>

theorem fetchData_twice_after_failure:
  "(1000 :: int) - 0 < CACHE_DURATION
   \<and> requests (fetchData \<lparr>cache = Map.empty, authToken = None, href = ''/''\<rparr> ''/api/x'' True 0
        (Resolved \<lparr>status = 500, json = Inr JNull\<rparr>) 1)
     @ requests (fetchData
         (state_after (fetchData \<lparr>cache = Map.empty, authToken = None, href = ''/''\<rparr> ''/api/x''
            True 0 (Resolved \<lparr>status = 500, json = Inr JNull\<rparr>) 1))
         ''/api/x'' True 1000 (Resolved \<lparr>status = 200, json = Inr (JStr ''v'')\<rparr>) 1001)
     = [\<lparr>request_url = ''http://localhost:8081/api/x'',
          headers = [(''Content-Type'', ''application/json'')]\<rparr>,
        \<lparr>request_url = ''http://localhost:8081/api/x'',
          headers = [(''Content-Type'', ''application/json'')]\<rparr>]"
  by (simp add: fetchData_def cached_def ok_def requests_def state_after_def CACHE_DURATION_def
                build_request_def auth_headers_def fullUrl_def startsWith_def)

text \<open>
  C5, amended. An entry is fresh exactly while \<open>now - timestamp < 5 * 60 * 1000\<close>,
  where \<open>timestamp\<close> is the clock reading \<open>stored1\<close> taken when the answer was stored.
  Let the first of two calls with \<open>useCache = true\<close> be answered successfully (for the
  revision with the mock fallback: with an envelope whose \<open>success\<close> is true).

  \<^item> If the first call finds no fresh entry, it issues one request, returns the payload
    and leaves the cache with the entry \<open>(payload, stored1)\<close> under the locator.
  \<^item> A second call made after the first has completed and less than five minutes after
    \<open>stored1\<close>: the two calls issue at most one request, and if the first one went to the
    network the second returns the payload it stored, without a request.
  \<^item> A later call made when five minutes or more have passed since \<open>stored1\<close> issues
    one request, and its outcome is the one it has with the entry deleted.
  \<^item> Any entry that is no longer fresh is a miss in the same way.
  \<^item> Two calls that both start before either has stored its answer (both find no fresh
    entry in the same state) issue one request each.

  Both revisions agree on this.
\<close>

theorem fetchData_cache_window:
  "(cached s url True now = Some payload \<longleftrightarrow>
      (\<exists>e. cache s url = Some e \<and> now - timestamp e < 5 * 60 * 1000 \<and> payload = data e))
   \<and> (let first = fetchData s url True now1 net1 stored1;
           second = fetchData (state_after first) url True now2 net2 stored2;
           later = fetchData (state_after first) url True now3 net3 stored3
       in net1 = Resolved r1 \<and> ok r1 \<and> json r1 = Inr payload1 \<longrightarrow>
          (cached s url True now1 = None \<longrightarrow>
             first = (Inr payload1, cache_set s url payload1 stored1, [build_request s url]))
          \<and> (now2 - stored1 < CACHE_DURATION \<longrightarrow>
               length (requests first @ requests second) \<le> 1
               \<and> (requests first \<noteq> [] \<longrightarrow> second = (Inr payload1, state_after first, [])))
          \<and> (cached s url True now1 = None \<and> \<not> now3 - stored1 < CACHE_DURATION \<longrightarrow>
               requests later = [build_request (state_after first) url]
               \<and> outcome later =
                   outcome (fetchData (cache_delete (state_after first) url) url True now3 net3
                              stored3)))
   \<and> (let first = fetchData_part_002 s url True now1 net1 stored1 iso1;
           second = fetchData_part_002 (state_after first) url True now2 net2 stored2 iso2;
           later = fetchData_part_002 (state_after first) url True now3 net3 stored3 iso3
       in net1 = Resolved r1 \<and> ok r1 \<and> json r1 = Inr (JObj envelope) \<and>
          truthy (get_prop (JObj envelope) ''success'') \<longrightarrow>
          (cached s url True now1 = None \<longrightarrow>
             first = (Inr (get_prop (JObj envelope) ''data''),
                      cache_set s url (get_prop (JObj envelope) ''data'') stored1,
                      [\<lparr>request_url = url, headers = []\<rparr>]))
          \<and> (now2 - stored1 < CACHE_DURATION \<longrightarrow>
               length (requests first @ requests second) \<le> 1
               \<and> (requests first \<noteq> [] \<longrightarrow>
                    second = (Inr (get_prop (JObj envelope) ''data''), state_after first, [])))
          \<and> (cached s url True now1 = None \<and> \<not> now3 - stored1 < CACHE_DURATION \<longrightarrow>
               requests later = [\<lparr>request_url = url, headers = []\<rparr>]
               \<and> outcome later =
                   outcome (fetchData_part_002 (cache_delete (state_after first) url) url True
                              now3 net3 stored3 iso3)))
   \<and> (cache s url = Some e \<and> \<not> now - timestamp e < CACHE_DURATION \<longrightarrow>
        cached s url True now = None
        \<and> requests (fetchData s url True now net stored_at) = [build_request s url]
        \<and> outcome (fetchData s url True now net stored_at) =
            outcome (fetchData (cache_delete s url) url True now net stored_at)
        \<and> requests (fetchData_part_002 s url True now net stored_at iso_now) =
            [\<lparr>request_url = url, headers = []\<rparr>]
        \<and> outcome (fetchData_part_002 s url True now net stored_at iso_now) =
            outcome (fetchData_part_002 (cache_delete s url) url True now net stored_at iso_now))
   \<and> (cached s url True now1 = None \<and> cached s url True now2 = None \<longrightarrow>
        requests (fetchData s url True now1 net1 stored1) @
        requests (fetchData s url True now2 net2 stored2) =
          [build_request s url, build_request s url]
        \<and> requests (fetchData_part_002 s url True now1 net1 stored1 iso1) @
          requests (fetchData_part_002 s url True now2 net2 stored2 iso2) =
          [\<lparr>request_url = url, headers = []\<rparr>, \<lparr>request_url = url, headers = []\<rparr>])"
proof -
  have A: "cached s url True now = Some payload \<longleftrightarrow>
      (\<exists>e. cache s url = Some e \<and> now - timestamp e < 5 * 60 * 1000 \<and> payload = data e)"
    by (rule cached_fresh_iff)
  have B: "let first = fetchData s url True now1 net1 stored1;
           second = fetchData (state_after first) url True now2 net2 stored2;
           later = fetchData (state_after first) url True now3 net3 stored3
       in net1 = Resolved r1 \<and> ok r1 \<and> json r1 = Inr payload1 \<longrightarrow>
          (cached s url True now1 = None \<longrightarrow>
             first = (Inr payload1, cache_set s url payload1 stored1, [build_request s url]))
          \<and> (now2 - stored1 < CACHE_DURATION \<longrightarrow>
               length (requests first @ requests second) \<le> 1
               \<and> (requests first \<noteq> [] \<longrightarrow> second = (Inr payload1, state_after first, [])))
          \<and> (cached s url True now1 = None \<and> \<not> now3 - stored1 < CACHE_DURATION \<longrightarrow>
               requests later = [build_request (state_after first) url]
               \<and> outcome later =
                   outcome (fetchData (cache_delete (state_after first) url) url True now3 net3
                              stored3))"
    unfolding Let_def
  proof (intro impI conjI)
    assume a: "net1 = Resolved r1 \<and> ok r1 \<and> json r1 = Inr payload1"
    then have n: "net1 = Resolved r1" "ok r1" "json r1 = Inr payload1" by simp_all
    {
      assume "cached s url True now1 = None"
      from fetchData_miss_success [OF this n]
      show "fetchData s url True now1 net1 stored1 =
              (Inr payload1, cache_set s url payload1 stored1, [build_request s url])"
        by (simp add: cache_set_def)
    }
    {
      assume w: "now2 - stored1 < CACHE_DURATION"
      note q = fetchData_sequential [OF n w, of s url now1 net2 stored2]
      from q show "length (requests (fetchData s url True now1 net1 stored1) @
                 requests (fetchData (state_after (fetchData s url True now1 net1 stored1))
                             url True now2 net2 stored2)) \<le> 1" by (rule conjunct1)
      assume "requests (fetchData s url True now1 net1 stored1) \<noteq> []"
      with q show "fetchData (state_after (fetchData s url True now1 net1 stored1))
                 url True now2 net2 stored2 =
              (Inr payload1, state_after (fetchData s url True now1 net1 stored1), [])"
        by blast
    }
    {
      assume "cached s url True now1 = None \<and> \<not> now3 - stored1 < CACHE_DURATION"
      then have m: "cached s url True now1 = None" and l: "\<not> now3 - stored1 < CACHE_DURATION"
        by simp_all
      note x = fetchData_expiry [OF m n l, of net3 stored3]
      from x show "requests (fetchData (state_after (fetchData s url True now1 net1 stored1))
                     url True now3 net3 stored3) =
           [build_request (state_after (fetchData s url True now1 net1 stored1)) url]"
        by (rule conjunct1)
      from x show "outcome (fetchData (state_after (fetchData s url True now1 net1 stored1))
                   url True now3 net3 stored3) =
         outcome (fetchData
                    (cache_delete (state_after (fetchData s url True now1 net1 stored1)) url)
                    url True now3 net3 stored3)"
        by (rule conjunct2)
    }
  qed
  have C: "let first = fetchData_part_002 s url True now1 net1 stored1 iso1;
           second = fetchData_part_002 (state_after first) url True now2 net2 stored2 iso2;
           later = fetchData_part_002 (state_after first) url True now3 net3 stored3 iso3
       in net1 = Resolved r1 \<and> ok r1 \<and> json r1 = Inr (JObj envelope) \<and>
          truthy (get_prop (JObj envelope) ''success'') \<longrightarrow>
          (cached s url True now1 = None \<longrightarrow>
             first = (Inr (get_prop (JObj envelope) ''data''),
                      cache_set s url (get_prop (JObj envelope) ''data'') stored1,
                      [\<lparr>request_url = url, headers = []\<rparr>]))
          \<and> (now2 - stored1 < CACHE_DURATION \<longrightarrow>
               length (requests first @ requests second) \<le> 1
               \<and> (requests first \<noteq> [] \<longrightarrow>
                    second = (Inr (get_prop (JObj envelope) ''data''), state_after first, [])))
          \<and> (cached s url True now1 = None \<and> \<not> now3 - stored1 < CACHE_DURATION \<longrightarrow>
               requests later = [\<lparr>request_url = url, headers = []\<rparr>]
               \<and> outcome later =
                   outcome (fetchData_part_002 (cache_delete (state_after first) url) url True
                              now3 net3 stored3 iso3))"
    unfolding Let_def
  proof (intro impI conjI)
    assume a: "net1 = Resolved r1 \<and> ok r1 \<and> json r1 = Inr (JObj envelope) \<and>
          truthy (get_prop (JObj envelope) ''success'')"
    then have n: "net1 = Resolved r1" "ok r1" "json r1 = Inr (JObj envelope)"
        "truthy (get_prop (JObj envelope) ''success'')" by simp_all
    {
      assume "cached s url True now1 = None"
      from fetchData_part_002_miss_success [OF this n]
      show "fetchData_part_002 s url True now1 net1 stored1 iso1 =
              (Inr (get_prop (JObj envelope) ''data''),
               cache_set s url (get_prop (JObj envelope) ''data'') stored1,
               [\<lparr>request_url = url, headers = []\<rparr>])"
        by (simp add: cache_set_def)
    }
    {
      assume w: "now2 - stored1 < CACHE_DURATION"
      note q = fetchData_part_002_sequential [OF n w, of s url now1 iso1 net2 stored2 iso2]
      from q show "length (requests (fetchData_part_002 s url True now1 net1 stored1 iso1) @
                 requests (fetchData_part_002
                             (state_after (fetchData_part_002 s url True now1 net1 stored1 iso1))
                             url True now2 net2 stored2 iso2)) \<le> 1" by (rule conjunct1)
      assume "requests (fetchData_part_002 s url True now1 net1 stored1 iso1) \<noteq> []"
      with q show "fetchData_part_002
                 (state_after (fetchData_part_002 s url True now1 net1 stored1 iso1))
                 url True now2 net2 stored2 iso2 =
              (Inr (get_prop (JObj envelope) ''data''),
               state_after (fetchData_part_002 s url True now1 net1 stored1 iso1), [])"
        by blast
    }
    {
      assume "cached s url True now1 = None \<and> \<not> now3 - stored1 < CACHE_DURATION"
      then have m: "cached s url True now1 = None" and l: "\<not> now3 - stored1 < CACHE_DURATION"
        by simp_all
      note x = fetchData_part_002_expiry [OF m n l, of iso1 net3 stored3 iso3]
      from x show "requests (fetchData_part_002
                     (state_after (fetchData_part_002 s url True now1 net1 stored1 iso1))
                     url True now3 net3 stored3 iso3) =
           [\<lparr>request_url = url, headers = []\<rparr>]"
        by (rule conjunct1)
      from x show "outcome (fetchData_part_002
                   (state_after (fetchData_part_002 s url True now1 net1 stored1 iso1))
                   url True now3 net3 stored3 iso3) =
         outcome (fetchData_part_002
                    (cache_delete
                       (state_after (fetchData_part_002 s url True now1 net1 stored1 iso1)) url)
                    url True now3 net3 stored3 iso3)"
        by (rule conjunct2)
    }
  qed
  have D: "cache s url = Some e \<and> \<not> now - timestamp e < CACHE_DURATION \<longrightarrow>
        cached s url True now = None
        \<and> requests (fetchData s url True now net stored_at) = [build_request s url]
        \<and> outcome (fetchData s url True now net stored_at) =
            outcome (fetchData (cache_delete s url) url True now net stored_at)
        \<and> requests (fetchData_part_002 s url True now net stored_at iso_now) =
            [\<lparr>request_url = url, headers = []\<rparr>]
        \<and> outcome (fetchData_part_002 s url True now net stored_at iso_now) =
            outcome (fetchData_part_002 (cache_delete s url) url True now net stored_at iso_now)"
  proof
    assume "cache s url = Some e \<and> \<not> now - timestamp e < CACHE_DURATION"
    then have t: "cache s url = Some e" "\<not> now - timestamp e < CACHE_DURATION" by simp_all
    from fetchData_stale [OF t, of net stored_at iso_now]
    show "cached s url True now = None
        \<and> requests (fetchData s url True now net stored_at) = [build_request s url]
        \<and> outcome (fetchData s url True now net stored_at) =
            outcome (fetchData (cache_delete s url) url True now net stored_at)
        \<and> requests (fetchData_part_002 s url True now net stored_at iso_now) =
            [\<lparr>request_url = url, headers = []\<rparr>]
        \<and> outcome (fetchData_part_002 s url True now net stored_at iso_now) =
            outcome (fetchData_part_002 (cache_delete s url) url True now net stored_at iso_now)"
      by (simp add: cache_delete_def)
  qed
  have E: "cached s url True now1 = None \<and> cached s url True now2 = None \<longrightarrow>
        requests (fetchData s url True now1 net1 stored1) @
        requests (fetchData s url True now2 net2 stored2) =
          [build_request s url, build_request s url]
        \<and> requests (fetchData_part_002 s url True now1 net1 stored1 iso1) @
          requests (fetchData_part_002 s url True now2 net2 stored2 iso2) =
          [\<lparr>request_url = url, headers = []\<rparr>, \<lparr>request_url = url, headers = []\<rparr>]"
    using fetchData_overlap [of s url now1 now2] by blast
  from A B C D E show ?thesis by blast
qed


theorem fetchData_cache_window_witness:
  "cached \<lparr>cache = Map.empty, authToken = None, href = ''/''\<rparr> ''/api/x'' True 0 = None
   \<and> ok \<lparr>status = 200, json = Inr (JObj [(''success'', JBool True), (''data'', JStr ''w'')])\<rparr>
   \<and> truthy (get_prop (JObj [(''success'', JBool True), (''data'', JStr ''w'')]) ''success'')
   \<and> (300119 :: int) - 120 < CACHE_DURATION
   \<and> \<not> (300120 :: int) - 120 < CACHE_DURATION
   \<and> fetchData \<lparr>cache = Map.empty, authToken = None, href = ''/''\<rparr> ''/api/x'' True 0
        (Resolved \<lparr>status = 200,
                   json = Inr (JObj [(''success'', JBool True), (''data'', JStr ''w'')])\<rparr>) 120 =
      (Inr (JObj [(''success'', JBool True), (''data'', JStr ''w'')]),
       \<lparr>cache = [''/api/x'' \<mapsto>
                  \<lparr>data = JObj [(''success'', JBool True), (''data'', JStr ''w'')],
                   timestamp = 120\<rparr>],
        authToken = None, href = ''/''\<rparr>,
       [\<lparr>request_url = ''http://localhost:8081/api/x'',
         headers = [(''Content-Type'', ''application/json'')]\<rparr>])
   \<and> fetchData
        \<lparr>cache = [''/api/x'' \<mapsto>
                   \<lparr>data = JObj [(''success'', JBool True), (''data'', JStr ''w'')],
                    timestamp = 120\<rparr>],
         authToken = None, href = ''/''\<rparr>
        ''/api/x'' True 300119 (Rejected (Error ''offline'')) 300200 =
      (Inr (JObj [(''success'', JBool True), (''data'', JStr ''w'')]),
       \<lparr>cache = [''/api/x'' \<mapsto>
                  \<lparr>data = JObj [(''success'', JBool True), (''data'', JStr ''w'')],
                   timestamp = 120\<rparr>],
        authToken = None, href = ''/''\<rparr>,
       [])
   \<and> requests (fetchData
        \<lparr>cache = [''/api/x'' \<mapsto>
                   \<lparr>data = JObj [(''success'', JBool True), (''data'', JStr ''w'')],
                    timestamp = 120\<rparr>],
         authToken = None, href = ''/''\<rparr>
        ''/api/x'' True 300120 (Resolved \<lparr>status = 200, json = Inr (JStr ''new'')\<rparr>) 300300) =
      [\<lparr>request_url = ''http://localhost:8081/api/x'',
        headers = [(''Content-Type'', ''application/json'')]\<rparr>]
   \<and> fetchData_part_002 \<lparr>cache = Map.empty, authToken = None, href = ''/''\<rparr> ''/api/x'' True 0
        (Resolved \<lparr>status = 200,
                   json = Inr (JObj [(''success'', JBool True), (''data'', JStr ''w'')])\<rparr>)
        120 ''t1'' =
      (Inr (JStr ''w''),
       \<lparr>cache = [''/api/x'' \<mapsto> \<lparr>data = JStr ''w'', timestamp = 120\<rparr>],
        authToken = None, href = ''/''\<rparr>,
       [\<lparr>request_url = ''/api/x'', headers = []\<rparr>])
   \<and> fetchData_part_002
        \<lparr>cache = [''/api/x'' \<mapsto> \<lparr>data = JStr ''w'', timestamp = 120\<rparr>],
         authToken = None, href = ''/''\<rparr>
        ''/api/x'' True 300119 (Rejected (Error ''offline'')) 300200 ''t2'' =
      (Inr (JStr ''w''),
       \<lparr>cache = [''/api/x'' \<mapsto> \<lparr>data = JStr ''w'', timestamp = 120\<rparr>],
        authToken = None, href = ''/''\<rparr>,
       [])
   \<and> requests (fetchData_part_002
        \<lparr>cache = [''/api/x'' \<mapsto> \<lparr>data = JStr ''w'', timestamp = 120\<rparr>],
         authToken = None, href = ''/''\<rparr>
        ''/api/x'' True 300120 (Resolved \<lparr>status = 200, json = Inr (JStr ''new'')\<rparr>) 300300
        ''t3'') =
      [\<lparr>request_url = ''/api/x'', headers = []\<rparr>]
   \<and> \<not> (301000 :: int) - 0 < CACHE_DURATION
   \<and> requests (fetchData
        \<lparr>cache = [''/api/x'' \<mapsto> \<lparr>data = JStr ''old'', timestamp = 0\<rparr>], authToken = None,
         href = ''/''\<rparr>
        ''/api/x'' True 301000 (Resolved \<lparr>status = 200, json = Inr (JStr ''new'')\<rparr>) 301100) =
      [\<lparr>request_url = ''http://localhost:8081/api/x'',
        headers = [(''Content-Type'', ''application/json'')]\<rparr>]
   \<and> cached \<lparr>cache = Map.empty, authToken = None, href = ''/''\<rparr> ''/api/x'' True 50 = None
   \<and> requests (fetchData \<lparr>cache = Map.empty, authToken = None, href = ''/''\<rparr> ''/api/x'' True 0
        (Resolved \<lparr>status = 200, json = Inr (JStr ''a'')\<rparr>) 120) @
     requests (fetchData \<lparr>cache = Map.empty, authToken = None, href = ''/''\<rparr> ''/api/x'' True 50
        (Resolved \<lparr>status = 200, json = Inr (JStr ''b'')\<rparr>) 170) =
      [\<lparr>request_url = ''http://localhost:8081/api/x'',
        headers = [(''Content-Type'', ''application/json'')]\<rparr>,
       \<lparr>request_url = ''http://localhost:8081/api/x'',
        headers = [(''Content-Type'', ''application/json'')]\<rparr>]"
proof -
  let ?s0 = "\<lparr>cache = Map.empty, authToken = None, href = ''/''\<rparr>"
  let ?env = "[(''success'', JBool True), (''data'', JStr ''w'')]"
  let ?r = "\<lparr>status = 200, json = Inr (JObj ?env)\<rparr>"
  let ?new = "Resolved \<lparr>status = 200, json = Inr (JStr ''new'')\<rparr>"
  let ?off = "Rejected (Error ''offline'')"
  let ?old = "\<lparr>data = JStr ''old'', timestamp = 0\<rparr>"
  let ?s1 = "\<lparr>cache = [''/api/x'' \<mapsto> ?old], authToken = None, href = ''/''\<rparr>"
  let ?first = "fetchData ?s0 ''/api/x'' True 0 (Resolved ?r) 120"
  let ?first2 = "fetchData_part_002 ?s0 ''/api/x'' True 0 (Resolved ?r) 120 ''t1''"
  have miss: "cached ?s0 ''/api/x'' True 0 = None" "cached ?s0 ''/api/x'' True 50 = None"
    by (simp_all add: cached_def)
  have okr: "ok ?r" by (simp add: ok_def)
  have succ: "truthy (get_prop (JObj ?env) ''success'')" by simp
  have w: "(300119 :: int) - 120 < CACHE_DURATION" by (simp add: CACHE_DURATION_def)
  have l: "\<not> (300120 :: int) - 120 < CACHE_DURATION" by (simp add: CACHE_DURATION_def)
  have st: "\<not> (301000 :: int) - timestamp ?old < CACHE_DURATION"
    by (simp add: CACHE_DURATION_def)
  have hyp: "Resolved ?r = Resolved ?r \<and> ok ?r \<and> json ?r = Inr (JObj ?env)"
    using okr by simp
  have hyp2: "Resolved ?r = Resolved ?r \<and> ok ?r \<and> json ?r = Inr (JObj ?env) \<and>
      truthy (get_prop (JObj ?env) ''success'')"
    using okr by simp
  note t = fetchData_cache_window
      [where s = ?s0 and url = "''/api/x''" and ?now1.0 = 0 and ?net1.0 = "Resolved ?r"
         and ?stored1.0 = 120 and ?r1.0 = ?r and ?payload1.0 = "JObj ?env"
         and envelope = ?env and ?now2.0 = 300119 and ?net2.0 = ?off and ?stored2.0 = 300200
         and ?now3.0 = 300120 and ?net3.0 = ?new and ?stored3.0 = 300300
         and ?iso1.0 = "''t1''" and ?iso2.0 = "''t2''" and ?iso3.0 = "''t3''",
       unfolded Let_def]
  from t hyp miss(1)
  have store: "?first = (Inr (JObj ?env), cache_set ?s0 ''/api/x'' (JObj ?env) 120,
                         [build_request ?s0 ''/api/x''])"
    by blast
  then have sent: "requests ?first \<noteq> []" by (simp add: requests_def)
  from t hyp w sent
  have hit: "fetchData (state_after ?first) ''/api/x'' True 300119 ?off 300200 =
               (Inr (JObj ?env), state_after ?first, [])"
    by blast
  from t hyp miss(1) l
  have later: "requests (fetchData (state_after ?first) ''/api/x'' True 300120 ?new 300300) =
                 [build_request (state_after ?first) ''/api/x'']"
    by blast
  from t hyp2 miss(1)
  have store2: "?first2 = (Inr (get_prop (JObj ?env) ''data''),
                           cache_set ?s0 ''/api/x'' (get_prop (JObj ?env) ''data'') 120,
                           [\<lparr>request_url = ''/api/x'', headers = []\<rparr>])"
    by blast
  then have sent2: "requests ?first2 \<noteq> []" by (simp add: requests_def)
  from t hyp2 w sent2
  have hit2: "fetchData_part_002 (state_after ?first2) ''/api/x'' True 300119 ?off 300200 ''t2'' =
               (Inr (get_prop (JObj ?env) ''data''), state_after ?first2, [])"
    by blast
  from t hyp2 miss(1) l
  have later2: "requests (fetchData_part_002 (state_after ?first2) ''/api/x'' True 300120 ?new
                   300300 ''t3'') = [\<lparr>request_url = ''/api/x'', headers = []\<rparr>]"
    by blast
  have e: "cache ?s1 ''/api/x'' = Some ?old" by simp
  from fetchData_cache_window
         [where s = ?s1 and url = "''/api/x''" and now = 301000 and e = ?old and net = ?new
            and stored_at = 301100]
       e st
  have stale: "requests (fetchData ?s1 ''/api/x'' True 301000 ?new 301100) =
               [build_request ?s1 ''/api/x'']"
    by blast
  from fetchData_cache_window
         [where s = ?s0 and url = "''/api/x''" and ?now1.0 = 0 and ?now2.0 = 50
            and ?net1.0 = "Resolved \<lparr>status = 200, json = Inr (JStr ''a'')\<rparr>"
            and ?stored1.0 = 120
            and ?net2.0 = "Resolved \<lparr>status = 200, json = Inr (JStr ''b'')\<rparr>"
            and ?stored2.0 = 170]
       miss
  have overlap: "requests (fetchData ?s0 ''/api/x'' True 0
                   (Resolved \<lparr>status = 200, json = Inr (JStr ''a'')\<rparr>) 120) @
                 requests (fetchData ?s0 ''/api/x'' True 50
                   (Resolved \<lparr>status = 200, json = Inr (JStr ''b'')\<rparr>) 170) =
                 [build_request ?s0 ''/api/x'', build_request ?s0 ''/api/x'']"
    by blast
  have s1: "state_after ?first =
      \<lparr>cache = [''/api/x'' \<mapsto> \<lparr>data = JObj ?env, timestamp = 120\<rparr>], authToken = None,
       href = ''/''\<rparr>"
    by (simp add: store state_after_def cache_set_def)
  have s2: "state_after ?first2 =
      \<lparr>cache = [''/api/x'' \<mapsto> \<lparr>data = JStr ''w'', timestamp = 120\<rparr>], authToken = None,
       href = ''/''\<rparr>"
    by (simp add: store2 state_after_def cache_set_def)
  have req: "build_request ?s0 ''/api/x'' =
      \<lparr>request_url = ''http://localhost:8081/api/x'',
       headers = [(''Content-Type'', ''application/json'')]\<rparr>"
    "build_request ?s1 ''/api/x'' =
      \<lparr>request_url = ''http://localhost:8081/api/x'',
       headers = [(''Content-Type'', ''application/json'')]\<rparr>"
    "build_request \<lparr>cache = [''/api/x'' \<mapsto> \<lparr>data = JObj ?env, timestamp = 120\<rparr>],
                    authToken = None, href = ''/''\<rparr> ''/api/x'' =
      \<lparr>request_url = ''http://localhost:8081/api/x'',
       headers = [(''Content-Type'', ''application/json'')]\<rparr>"
    by (simp_all add: build_request_def auth_headers_def fullUrl_def startsWith_def)
  have c1: "?first = (Inr (JObj ?env),
       \<lparr>cache = [''/api/x'' \<mapsto> \<lparr>data = JObj ?env, timestamp = 120\<rparr>], authToken = None,
        href = ''/''\<rparr>,
       [\<lparr>request_url = ''http://localhost:8081/api/x'',
         headers = [(''Content-Type'', ''application/json'')]\<rparr>])"
    using store by (simp add: cache_set_def req)
  have c2: "?first2 = (Inr (JStr ''w''),
       \<lparr>cache = [''/api/x'' \<mapsto> \<lparr>data = JStr ''w'', timestamp = 120\<rparr>], authToken = None,
        href = ''/''\<rparr>,
       [\<lparr>request_url = ''/api/x'', headers = []\<rparr>])"
    using store2 by (simp add: cache_set_def)
  note hit' = hit [unfolded s1] and later' = later [unfolded s1 req]
    and hit2' = hit2 [unfolded s2] and later2' = later2 [unfolded s2]
    and stale' = stale [unfolded req] and overlap' = overlap [unfolded req]
  have d: "get_prop (JObj ?env) ''data'' = JStr ''w''" by simp
  have st': "\<not> (301000 :: int) - 0 < CACHE_DURATION" by (simp add: CACHE_DURATION_def)
  show ?thesis
    apply (intro conjI)
    apply (rule miss(1))
    apply (rule okr)
    apply (rule succ)
    apply (rule w)
    apply (rule l)
    apply (rule c1)
    apply (rule hit')
    apply (rule later')
    apply (rule c2)
    apply (rule hit2' [unfolded d])
    apply (rule later2')
    apply (rule st')
    apply (rule stale')
    apply (rule miss(2))
    apply (rule overlap')
    done
qed

section \<open>Properties of the layout engine\<close>

subsection \<open>Basic equations\<close>

declare renderBody.simps(3) [simp del]
declare renderComponent.simps [simp del]

lemma renderBody_unknown:
  "lookup_component type = None \<Longrightarrow>
     renderBody (Config type props children node_id className) index =
       (Inr (UnknownComponent (key_of node_id index) type), [])"
  by (simp add: renderBody.simps(3))

lemma renderComponent_unknown:
  "lookup_component type = None \<Longrightarrow>
     renderComponent (Config type props children node_id className) index =
       (UnknownComponent (key_of node_id index) type, [])"
  by (simp add: renderComponent.simps renderBody_unknown)

lemma renderChildren_Cons:
  "renderChildren (x # xs) k =
     (fst (renderComponent x k) # fst (renderChildren xs (k + 1)),
      snd (renderComponent x k) @ snd (renderChildren xs (k + 1)))"
  by (simp add: split_def Let_def)

declare renderChildren.simps(2) [simp del]
declare renderChildren_Cons [simp]

lemma renderChildren_append:
  "renderChildren (xs @ ys) k =
     (fst (renderChildren xs k) @ fst (renderChildren ys (k + int (length xs))),
      snd (renderChildren xs k) @ snd (renderChildren ys (k + int (length xs))))"
proof (induction xs arbitrary: k)
  case Nil
  show ?case by simp
next
  case (Cons x xs)
  have "k + 1 + int (length xs) = k + int (length (x # xs))" by simp
  with Cons [of "k + 1"] show ?case
    by simp
qed

lemma renderChildren_length: "length (fst (renderChildren cs k)) = length cs"
  by (induction cs arbitrary: k) simp_all

subsection \<open>Unknown component types\<close>

text \<open>
  A node for whose type the property read \<open>componentMap[type]\<close> finds nothing renders
  as the "Unknown component" marker and nothing else: whatever its props and children
  are, nothing below it is rendered and no error is signalled. Among its siblings it takes its place, the
  siblings before and after it rendering as they do without it, and as the root it is
  what \<open>LayoutEngine\<close> returns once initialized.
\<close>

lemma unknown_component_marker:
  assumes "lookup_component type = None"
  shows "renderComponent (Config type props children node_id className) index =
           (UnknownComponent (key_of node_id index) type, [])
       \<and> renderChildren (before @ Config type props children node_id className # after) k =
           (fst (renderChildren before k)
              @ UnknownComponent (key_of node_id (k + int (length before))) type
              # fst (renderChildren after (k + int (length before) + 1)),
            snd (renderChildren before k)
              @ snd (renderChildren after (k + int (length before) + 1)))
       \<and> LayoutEngine (timer_fired initial_state)
            (Val \<lparr>layout = Config type props children node_id className,
                  theme = th, metadata = info\<rparr>) =
           (Layout (UnknownComponent (key_of node_id 0) type), [])"
proof (intro conjI)
  from assms show "renderComponent (Config type props children node_id className) index =
           (UnknownComponent (key_of node_id index) type, [])"
    by (rule renderComponent_unknown)
next
  from assms show "renderChildren (before @ Config type props children node_id className # after) k =
           (fst (renderChildren before k)
              @ UnknownComponent (key_of node_id (k + int (length before))) type
              # fst (renderChildren after (k + int (length before) + 1)),
            snd (renderChildren before k)
              @ snd (renderChildren after (k + int (length before) + 1)))"
    by (simp add: renderChildren_append renderComponent_unknown)
next
  from assms show "LayoutEngine (timer_fired initial_state)
            (Val \<lparr>layout = Config type props children node_id className,
                  theme = th, metadata = info\<rparr>) =
           (Layout (UnknownComponent (key_of node_id 0) type), [])"
    by (simp add: LayoutEngine_def timer_fired_def initial_state_def error_flag_def
                  metadata_layout_def renderComponent_unknown)
qed

lemma lookup_doesNotExist: "lookup_component (Val ''doesNotExist'') = None"
  by (simp add: lookup_component_def componentMap_def object_prototype_def property_key_def)

lemma lookup_card: "lookup_component (Val ''card'') = Some Card"
  by (simp add: lookup_component_def componentMap_def object_prototype_def property_key_def)

lemma unknown_component_marker_example:
  "lookup_component (Val ''doesNotExist'') = None
   \<and> renderComponent (Config (Val ''doesNotExist'') Null_props (Val [Null_config]) Undefined Undefined) 7
       = (UnknownComponent (KeyIndex 7) (Val ''doesNotExist''), [])
   \<and> renderChildren
       [Config (Val ''card'') Undefined_props Undefined (Val ''a'') Undefined,
        Config (Val ''doesNotExist'') Null_props (Val [Null_config]) Undefined Undefined,
        Config (Val ''card'') Undefined_props Undefined (Val ''b'') Undefined] 0
       = ([ComponentElement Card (KeyString ''a'') Undefined
             (Props Undefined_props Undefined_props Undefined_config []) None,
           UnknownComponent (KeyIndex 1) (Val ''doesNotExist''),
           ComponentElement Card (KeyString ''b'') Undefined
             (Props Undefined_props Undefined_props Undefined_config []) None], [])"
proof -
  let ?u = "Config (Val ''doesNotExist'') Null_props (Val [Null_config]) Undefined Undefined"
  let ?a = "Config (Val ''card'') Undefined_props Undefined (Val ''a'') Undefined"
  let ?b = "Config (Val ''card'') Undefined_props Undefined (Val ''b'') Undefined"
  note u = unknown_component_marker [OF lookup_doesNotExist,
      of Null_props "Val [Null_config]" Undefined Undefined]
  have a: "renderChildren [?a] 0 =
      ([ComponentElement Card (KeyString ''a'') Undefined
             (Props Undefined_props Undefined_props Undefined_config []) None], [])"
    by (simp add: renderComponent.simps renderBody.simps(3) lookup_card default_props_def
                  default_children_def key_of_def)
  have b: "renderChildren [?b] 2 =
      ([ComponentElement Card (KeyString ''b'') Undefined
             (Props Undefined_props Undefined_props Undefined_config []) None], [])"
    by (simp add: renderComponent.simps renderBody.simps(3) lookup_card default_props_def
                  default_children_def key_of_def)
  from u [of 7] have one: "renderComponent ?u 7 = (UnknownComponent (KeyIndex 7) (Val ''doesNotExist''), [])"
    by (simp add: key_of_def)
  from u [of _ "[?a]" "[?b]" 0] a b
  have "renderChildren [?a, ?u, ?b] 0 =
       ([ComponentElement Card (KeyString ''a'') Undefined
             (Props Undefined_props Undefined_props Undefined_config []) None,
           UnknownComponent (KeyIndex 1) (Val ''doesNotExist''),
           ComponentElement Card (KeyString ''b'') Undefined
             (Props Undefined_props Undefined_props Undefined_config []) None], [])"
    by (simp add: key_of_def)
  with one lookup_doesNotExist show ?thesis by simp
qed

subsection \<open>Metadata without a layout\<close>

text \<open>
  C4. For metadata without a layout (\<open>undefined\<close>, \<open>null\<close>, or an object whose
  \<open>layout\<close> is absent or \<open>null\<close>), a mounted engine shows the loading skeleton
  until its timer fires and the "Invalid Metadata" screen from then on. In no state does
  an evaluation render a node or signal an error.
\<close>

theorem invalid_metadata:
  assumes "\<not> truthy_config (metadata_layout m)"
  shows "LayoutEngine initial_state m = (LoadingSkeleton, [])
       \<and> LayoutEngine (timer_fired initial_state) m = (InvalidMetadata, [])
       \<and> setRenderError (timer_fired initial_state)
           (snd (LayoutEngine (timer_fired initial_state) m)) = timer_fired initial_state
       \<and> (\<forall>s. snd (LayoutEngine s m) = [] \<and> (\<forall>el. fst (LayoutEngine s m) \<noteq> Layout el))
       \<and> (\<forall>s. isInitialized s \<and> error_flag s = None \<longrightarrow> LayoutEngine s m = (InvalidMetadata, []))"
  using assms
  by (auto simp: LayoutEngine_def initial_state_def timer_fired_def error_flag_def
                 setRenderError_def split: option.splits)

theorem invalid_metadata_witness:
  "\<not> truthy_config (metadata_layout (Val \<lparr>layout = Undefined_config, theme = JUndefined, metadata = JUndefined\<rparr>))
   \<and> LayoutEngine (timer_fired initial_state)
        (Val \<lparr>layout = Undefined_config, theme = JUndefined, metadata = JUndefined\<rparr>)
      = (InvalidMetadata, [])
   \<and> isInitialized (timer_fired initial_state) \<and> error_flag (timer_fired initial_state) = None"
proof -
  let ?m = "Val \<lparr>layout = Undefined_config, theme = JUndefined, metadata = JUndefined\<rparr>"
  have h: "\<not> truthy_config (metadata_layout ?m)" by (simp add: metadata_layout_def)
  have st: "isInitialized (timer_fired initial_state) \<and> error_flag (timer_fired initial_state) = None"
    by (simp add: timer_fired_def initial_state_def error_flag_def)
  from invalid_metadata [OF h] h st show ?thesis by blast
qed

subsection \<open>The branches of renderBody\<close>

lemma lookup_navbar: "lookup_component (Val ''navbar'') = Some Navbar"
  by (simp add: lookup_component_def componentMap_def property_key_def)

lemma lookup_sidebar: "lookup_component (Val ''sidebar'') = Some Sidebar"
  by (simp add: lookup_component_def componentMap_def property_key_def)

lemma lookup_page: "lookup_component (Val ''page'') = Some Page"
  by (simp add: lookup_component_def componentMap_def property_key_def)

lemma default_props_truthy: "truthy_props p \<Longrightarrow> default_props p = p"
  by (cases p) (simp_all add: default_props_def)

lemma renderComponent_navbar:
  "truthy_props navbar \<Longrightarrow>
     renderComponent (Config (Val ''navbar'') navbar Undefined Undefined Undefined) index =
       (ComponentElement Navbar (KeyIndex index) Undefined navbar None, [])"
  by (simp add: renderComponent.simps renderBody.simps(3) lookup_navbar default_props_truthy
                default_children_def key_of_def)

lemma renderComponent_sidebar:
  "truthy_props sidebar \<Longrightarrow>
     renderComponent (Config (Val ''sidebar'') sidebar Undefined Undefined Undefined) index =
       (ComponentElement Sidebar (KeyIndex index) Undefined sidebar None, [])"
  by (simp add: renderComponent.simps renderBody.simps(3) lookup_sidebar default_props_truthy
                default_children_def key_of_def)

lemma renderBody_page:
  assumes "default_props props = Props navbar sidebar content rest"
    and "default_children children = Val cs"
  shows "renderBody (Config (Val ''page'') props children node_id className) index =
     (Inr (PageLayout (key_of node_id index) className
             (if truthy_props navbar
              then Some (ComponentElement Navbar (KeyIndex (- 1)) Undefined navbar None)
              else None)
             (if truthy_props sidebar
              then Some (ComponentElement Sidebar (KeyIndex (- 2)) Undefined sidebar None)
              else None)
             (if truthy_config content then Some (fst (renderComponent content (- 3))) else None)
             (fst (renderChildren cs 0))),
      (if truthy_config content then snd (renderComponent content (- 3)) else [])
        @ snd (renderChildren cs 0))"
  using assms
  by (simp add: renderBody.simps(3) lookup_page renderComponent_navbar renderComponent_sidebar
                split_def Let_def)

lemma renderBody_regular:
  assumes "lookup_component type = Some Component" and "type \<noteq> Val ''page''"
    and "default_children children = Val cs"
  shows "renderBody (Config type props children node_id className) index =
     (Inr (ComponentElement Component (key_of node_id index) className (default_props props)
             (if cs = [] then None else Some (fst (renderChildren cs 0)))),
      snd (renderChildren cs 0))"
  using assms
  by (cases cs) (simp_all add: renderBody.simps(3) split_def Let_def del: renderChildren_Cons)

lemma renderBody_page_null_props:
  "renderBody (Config (Val ''page'') Null_props children node_id className) index =
     (Inl (cannot_destructure ''sidebar'' ''props'' ''null''), [])"
  by (simp add: renderBody.simps(3) lookup_page default_props_def)

lemma renderBody_regular_null_children:
  assumes "lookup_component type = Some Component" and "type \<noteq> Val ''page''"
  shows "renderBody (Config type props Null node_id className) index =
     (Inl (cannot_read ''null'' ''length''), [])"
  using assms by (simp add: renderBody.simps(3) default_children_def)


subsection \<open>Page nodes\<close>

lemma renderChildren_enumerate:
  "fst (renderChildren cs (int n)) =
     map (\<lambda>(j, child). fst (renderComponent child (int j))) (enumerate n cs)"
proof (induction cs arbitrary: n)
  case Nil
  show ?case by simp
next
  case (Cons c cs)
  have "int n + 1 = int (Suc n)" by simp
  with Cons [of "Suc n"] show ?case by (simp add: add.commute)
qed

lemma renderChildren_map:
  "fst (renderChildren cs 0) =
     map (\<lambda>(j, child). fst (renderComponent child (int j))) (enumerate 0 cs)"
  using renderChildren_enumerate [of cs 0] by simp

text \<open>
  C2. A page node whose \<open>props\<close> and \<open>children\<close> are not \<open>null\<close> renders as the page
  layout: first the navbar, if \<open>props.navbar\<close> is present, rendered as a node of type
  \<open>navbar\<close> with those props (the \<open>Navbar\<close> component, key -1); then the row with the
  sidebar, if present, rendered likewise as a node of type \<open>sidebar\<close> (key -2), beside
  the main area; and the main area holds the content, if present, rendered as a node
  (key -3), followed by every child of the page node rendered in order.
\<close>

theorem page_layout_order:
  assumes "default_props props = Props navbar sidebar content rest"
    and "default_children children = Val cs"
  shows "fst (renderComponent (Config (Val ''page'') props children node_id className) index) =
           PageLayout (key_of node_id index) className
             (if truthy_props navbar
              then Some (fst (renderComponent
                                (Config (Val ''navbar'') navbar Undefined Undefined Undefined) (- 1)))
              else None)
             (if truthy_props sidebar
              then Some (fst (renderComponent
                                (Config (Val ''sidebar'') sidebar Undefined Undefined Undefined) (- 2)))
              else None)
             (if truthy_config content then Some (fst (renderComponent content (- 3))) else None)
             (map (\<lambda>(j, child). fst (renderComponent child (int j))) (enumerate 0 cs))
       \<and> (truthy_props navbar \<longrightarrow>
            fst (renderComponent (Config (Val ''navbar'') navbar Undefined Undefined Undefined) (- 1))
              = ComponentElement Navbar (KeyIndex (- 1)) Undefined navbar None)
       \<and> (truthy_props sidebar \<longrightarrow>
            fst (renderComponent (Config (Val ''sidebar'') sidebar Undefined Undefined Undefined) (- 2))
              = ComponentElement Sidebar (KeyIndex (- 2)) Undefined sidebar None)
       \<and> main_area
            (fst (renderComponent (Config (Val ''page'') props children node_id className) index)) =
           (if truthy_config content then [fst (renderComponent content (- 3))] else [])
             @ map (\<lambda>(j, child). fst (renderComponent child (int j))) (enumerate 0 cs)"
  using assms
  by (simp add: renderComponent.simps [of "Config (Val ''page'') props children node_id className"]
                renderBody_page renderComponent_navbar renderComponent_sidebar
                renderChildren_map)


lemma renderComponent_card_node:
  "renderComponent (card_node title) index =
     (ComponentElement Card (KeyIndex index) Undefined
        (Props Undefined_props Undefined_props Undefined_config [(''title'', JStr title)]) None,
      [])"
  by (simp add: card_node_def renderComponent.simps renderBody.simps(3) lookup_card default_props_def
                default_children_def key_of_def)

theorem page_layout_order_witness:
  "default_props (Props empty_props empty_props (card_node ''X'') []) =
     Props empty_props empty_props (card_node ''X'') []
   \<and> default_children (Val [card_node ''Y'']) = Val [card_node ''Y'']
   \<and> truthy_props empty_props \<and> truthy_config (card_node ''X'')
   \<and> fst (renderComponent example_page 0) =
       PageLayout (KeyIndex 0) Undefined
         (Some (ComponentElement Navbar (KeyIndex (- 1)) Undefined empty_props None))
         (Some (ComponentElement Sidebar (KeyIndex (- 2)) Undefined empty_props None))
         (Some (ComponentElement Card (KeyIndex (- 3)) Undefined
                 (Props Undefined_props Undefined_props Undefined_config [(''title'', JStr ''X'')])
                 None))
         [ComponentElement Card (KeyIndex 0) Undefined
            (Props Undefined_props Undefined_props Undefined_config [(''title'', JStr ''Y'')])
            None]
   \<and> main_area (fst (renderComponent example_page 0)) =
       [ComponentElement Card (KeyIndex (- 3)) Undefined
          (Props Undefined_props Undefined_props Undefined_config [(''title'', JStr ''X'')]) None,
        ComponentElement Card (KeyIndex 0) Undefined
          (Props Undefined_props Undefined_props Undefined_config [(''title'', JStr ''Y'')]) None]"
proof -
  have p: "default_props (Props empty_props empty_props (card_node ''X'') []) =
     Props empty_props empty_props (card_node ''X'') []"
    by (simp add: default_props_def)
  have c: "default_children (Val [card_node ''Y'']) = Val [card_node ''Y'']"
    by (simp add: default_children_def)
  have t: "truthy_props empty_props" "truthy_config (card_node ''X'')"
    by (simp_all add: empty_props_def card_node_def)
  from page_layout_order [OF p c, of Undefined Undefined 0] p c t
  show ?thesis
    by (simp add: example_page_def renderComponent_card_node key_of_def)
qed

subsection \<open>Types found on the prototype\<close>

text \<open>
  A type that names a member of \<open>Object.prototype\<close> is resolved by the property read
  although the component map has no such key: the node gets no marker, the inherited
  member stands where the component would, and the children are rendered.
\<close>

lemma lookup_inherited:
  "lookup_component (Val ''toString'') = Some (Inherited ''toString'')"
  by (simp add: lookup_component_def componentMap_def object_prototype_def property_key_def)

text \<open>
  C3. The type \<open>toString\<close> does not resolve in the component map, which has no such key.
  A node of that type is to render as the "Unknown component" marker, its children left
  alone. The test of the code is the property read \<open>componentMap[type]\<close>, and that read
  finds \<open>Object.prototype.toString\<close>: the node gets no marker, the inherited function
  stands where the component would, and the child is rendered below it. The same holds
  among siblings: the container of the three nodes renders without a marker, as five
  elements.
\<close>

theorem inherited_type_not_marked:
  "map_of componentMap ''toString'' = None
   \<and> renderComponent inherited_node 1 =
       (ComponentElement (Inherited ''toString'') (KeyIndex 1) Undefined empty_props
          (Some [ComponentElement Card (KeyIndex 0) Undefined
                   (Props Undefined_props Undefined_props Undefined_config
                      [(''title'', JStr ''Z'')])
                   None]),
        [])
   \<and> count_markers (fst (renderComponent inherited_node 1)) = 0
   \<and> count_markers (fst (renderComponent inherited_container 0)) = 0
   \<and> count_rendered (fst (renderComponent inherited_container 0)) = 5"
  by code_simp

subsection \<open>Counting nodes and elements\<close>


lemma list_ex_concat: "list_ex P (concat xss) = list_ex (list_ex P) xss"
  by (induction xss) simp_all




lemma contains_error_unfold:
  "contains_error e = (is_error e \<or> list_ex contains_error (child_elements e))"
  unfolding contains_error_def
  by (subst elements_of.simps) (simp add: list_ex_concat list_ex_iff)









lemma default_props_cases:
  "p \<noteq> Null_props \<Longrightarrow> \<exists>n s ct r. default_props p = Props n s ct r"
  by (cases p) (simp_all add: default_props_def)

lemma default_children_cases:
  "ch \<noteq> Null \<Longrightarrow> default_children ch = Val (child_nodes (Config t p ch nid cl))"
  by (cases ch) (simp_all add: default_children_def)

lemma page_parts:
  assumes "default_props p = Props n s ct r"
  shows "page_navbar (Config (Val ''page'') p ch nid cl) = n"
    and "page_sidebar (Config (Val ''page'') p ch nid cl) = s"
    and "page_content (Config (Val ''page'') p ch nid cl) = ct"
  using assms by (cases p; simp add: default_props_def)+












subsection \<open>Exceptions in renderComponent\<close>

lemma cannot_destructure_message: "message (cannot_destructure a b c) \<noteq> []"
  by (simp add: cannot_destructure_def)

lemma cannot_read_message: "message (cannot_read a b) \<noteq> []"
  by (simp add: cannot_read_def)

lemma destructure_props_message: "destructure_props p = Inl e \<Longrightarrow> message e \<noteq> []"
  by (cases p) (auto simp: cannot_destructure_message)

lemma renderChildren_all:
  "(\<And>x i. x \<in> set cs \<Longrightarrow> list_all P (snd (renderComponent x i))) \<Longrightarrow>
     list_all P (snd (renderChildren cs k))"
  by (induction cs arbitrary: k) simp_all

lemma renderComponent_throws:
  "renderBody config index = (Inl error, errs) \<Longrightarrow>
     renderComponent config index =
       (RenderingError (KeyIndex index) (message error), errs @ [message error])"
  by (simp add: renderComponent.simps)

lemma renderComponent_returns:
  "renderBody config index = (Inr el, errs) \<Longrightarrow> renderComponent config index = (el, errs)"
  by (simp add: renderComponent.simps)


lemma renderBody_page_null_children:
  assumes "default_props props = Props navbar sidebar content rest"
  shows "renderBody (Config (Val ''page'') props Null node_id className) index =
     (Inl (cannot_read ''null'' ''map''),
      (if truthy_config content then snd (renderComponent content (- 3)) else []))"
  using assms
  by (simp add: renderBody.simps(3) lookup_page renderComponent_navbar renderComponent_sidebar
                split_def Let_def default_children_def)

lemma renderComponent_cases:
  obtains
    (not_a_node) msg where "\<not> truthy_config c" and "msg \<noteq> []"
      and "renderComponent c i = (RenderingError (KeyIndex i) msg, [msg])"
  | (unknown) t p ch nid cl where "c = Config t p ch nid cl" and "lookup_component t = None"
      and "renderComponent c i = (UnknownComponent (key_of nid i) t, [])"
  | (page_null_props) ch nid cl msg where "c = Config (Val ''page'') Null_props ch nid cl"
      and "msg \<noteq> []"
      and "renderComponent c i = (RenderingError (KeyIndex i) msg, [msg])"
  | (page_null_children) p n s ct r nid cl msg where "c = Config (Val ''page'') p Null nid cl"
      and "default_props p = Props n s ct r" and "msg \<noteq> []"
      and "renderComponent c i =
            (RenderingError (KeyIndex i) msg,
             (if truthy_config ct then snd (renderComponent ct (- 3)) else []) @ [msg])"
  | (page) p n s ct r ch cs nid cl where "c = Config (Val ''page'') p ch nid cl"
      and "default_props p = Props n s ct r" and "default_children ch = Val cs"
      and "renderComponent c i =
            (PageLayout (key_of nid i) cl
               (if truthy_props n
                then Some (ComponentElement Navbar (KeyIndex (- 1)) Undefined n None) else None)
               (if truthy_props s
                then Some (ComponentElement Sidebar (KeyIndex (- 2)) Undefined s None) else None)
               (if truthy_config ct then Some (fst (renderComponent ct (- 3))) else None)
               (fst (renderChildren cs 0)),
             (if truthy_config ct then snd (renderComponent ct (- 3)) else [])
               @ snd (renderChildren cs 0))"
  | (regular_null_children) t p nid cl Component msg where "c = Config t p Null nid cl"
      and "lookup_component t = Some Component" and "t \<noteq> Val ''page''" and "msg \<noteq> []"
      and "renderComponent c i = (RenderingError (KeyIndex i) msg, [msg])"
  | (regular) t p ch cs nid cl Component where "c = Config t p ch nid cl"
      and "lookup_component t = Some Component" and "t \<noteq> Val ''page''"
      and "default_children ch = Val cs"
      and "renderComponent c i =
            (ComponentElement Component (key_of nid i) cl (default_props p)
               (if cs = [] then None else Some (fst (renderChildren cs 0))),
             snd (renderChildren cs 0))"
proof (cases c)
  case Undefined_config
  then show ?thesis
    by (intro not_a_node [of "message (cannot_destructure ''type'' ''config'' ''undefined'')"])
       (simp_all add: renderComponent.simps cannot_destructure_message)
next
  case Null_config
  then show ?thesis
    by (intro not_a_node [of "message (cannot_destructure ''type'' ''config'' ''null'')"])
       (simp_all add: renderComponent.simps cannot_destructure_message)
next
  case (Config t p ch nid cl)
  show ?thesis
  proof (cases "lookup_component t")
    case None
    with Config show ?thesis
      by (intro unknown) (simp_all add: renderComponent_unknown)
  next
    case (Some Component)
    show ?thesis
    proof (cases "t = Val ''page''")
      case True
      show ?thesis
      proof (cases "p = Null_props")
        case pn: True
        with Config \<open>t = Val ''page''\<close> show ?thesis
          by (intro page_null_props
                [of ch nid cl "message (cannot_destructure ''sidebar'' ''props'' ''null'')"])
             (simp_all add: renderComponent.simps renderBody_page_null_props
                            cannot_destructure_message)
      next
        case False
        from default_props_cases [OF False] obtain n s ct r
          where dp: "default_props p = Props n s ct r" by blast
        show ?thesis
        proof (cases "ch = Null")
          case cn: True
          with Config \<open>t = Val ''page''\<close> dp show ?thesis
            by (intro page_null_children [of p nid cl n s ct r "message (cannot_read ''null'' ''map'')"])
               (simp_all add: renderComponent.simps renderBody_page_null_children
                              cannot_read_message)
        next
          case False
          then have dc: "default_children ch = Val (child_nodes c)"
            unfolding Config by (rule default_children_cases)
          with Config \<open>t = Val ''page''\<close> dp show ?thesis
            by (intro page [of p ch nid cl n s ct r "child_nodes c"])
               (simp_all add: renderComponent.simps renderBody_page)
        qed
      qed
    next
      case False
      show ?thesis
      proof (cases "ch = Null")
        case cn: True
        with Config Some False show ?thesis
          by (intro regular_null_children
                [of t p nid cl Component "message (cannot_read ''null'' ''length'')"])
             (simp_all add: renderComponent.simps renderBody_regular_null_children
                            cannot_read_message)
      next
        case cf: False
        then have dc: "default_children ch = Val (child_nodes c)"
          unfolding Config by (rule default_children_cases)
        with Config Some False show ?thesis
          by (intro regular [of t p ch nid cl Component "child_nodes c"])
             (simp_all add: renderComponent.simps renderBody_regular)
      qed
    qed
  qed
qed


lemma child_nodes_default:
  "default_children ch = Val cs \<Longrightarrow> child_nodes (Config t p ch nid cl) = cs"
  by (cases ch) (simp_all add: default_children_def)

lemma children_sub_nodes:
  "default_children ch = Val cs \<Longrightarrow> x \<in> set cs \<Longrightarrow> x \<in> set (sub_nodes (Config t p ch nid cl))"
  by (simp add: sub_nodes_def child_nodes_default)

lemma content_sub_node:
  "default_props p = Props n s ct r \<Longrightarrow> truthy_config ct \<Longrightarrow>
     ct \<in> set (sub_nodes (Config (Val ''page'') p ch nid cl))"
  by (simp add: sub_nodes_def page_parts)

lemma renderChildren_ex:
  "(\<And>x i. x \<in> set cs \<Longrightarrow> P (fst (renderComponent x i)) \<longleftrightarrow> snd (renderComponent x i) \<noteq> []) \<Longrightarrow>
     list_ex P (fst (renderChildren cs k)) \<longleftrightarrow> snd (renderChildren cs k) \<noteq> []"
  by (induction cs arbitrary: k) simp_all

lemma renderComponent_messages: "list_all (\<lambda>m. m \<noteq> []) (snd (renderComponent c i))"
proof (induction c arbitrary: i rule: measure_induct_rule [of size])
  case (less c)
  have IH: "\<And>x j. x \<in> set (sub_nodes c) \<Longrightarrow> list_all (\<lambda>m. m \<noteq> []) (snd (renderComponent x j))"
    by (rule less.IH) (rule sub_nodes_size)
  show ?case
  proof (cases c i rule: renderComponent_cases)
    case (not_a_node msg)
    then show ?thesis by simp
  next
    case (unknown t p ch nid cl)
    then show ?thesis by simp
  next
    case (page_null_props ch nid cl msg)
    then show ?thesis by simp
  next
    case (page_null_children p n s ct r nid cl msg)
    have "truthy_config ct \<Longrightarrow> list_all (\<lambda>m. m \<noteq> []) (snd (renderComponent ct (- 3)))"
      by (rule IH) (simp add: page_null_children(1,2) content_sub_node)
    with page_null_children(3,4) show ?thesis by simp
  next
    case (page p n s ct r ch cs nid cl)
    have k: "list_all (\<lambda>m. m \<noteq> []) (snd (renderChildren cs 0))"
      by (rule renderChildren_all, rule IH) (simp add: page(1,3) children_sub_nodes)
    have "truthy_config ct \<Longrightarrow> list_all (\<lambda>m. m \<noteq> []) (snd (renderComponent ct (- 3)))"
      by (rule IH) (simp add: page(1,2) content_sub_node)
    with k page(4) show ?thesis by simp
  next
    case (regular_null_children t p nid cl Component msg)
    then show ?thesis by simp
  next
    case (regular t p ch cs nid cl Component)
    have "list_all (\<lambda>m. m \<noteq> []) (snd (renderChildren cs 0))"
      by (rule renderChildren_all, rule IH) (simp add: regular(1,4) children_sub_nodes)
    with regular(5) show ?thesis by simp
  qed
qed

lemma renderComponent_contains_error:
  "contains_error (fst (renderComponent c i)) \<longleftrightarrow> snd (renderComponent c i) \<noteq> []"
proof (induction c arbitrary: i rule: measure_induct_rule [of size])
  case (less c)
  have IH: "\<And>x j. x \<in> set (sub_nodes c) \<Longrightarrow>
      contains_error (fst (renderComponent x j)) \<longleftrightarrow> snd (renderComponent x j) \<noteq> []"
    by (rule less.IH) (rule sub_nodes_size)
  have bar: "\<And>r k p. \<not> contains_error (ComponentElement r k Undefined p None)"
    by (subst contains_error_unfold) simp
  show ?case
  proof (cases c i rule: renderComponent_cases)
    case (not_a_node msg)
    show ?thesis unfolding not_a_node(3) by (subst contains_error_unfold) simp
  next
    case (unknown t p ch nid cl)
    show ?thesis unfolding unknown(3) by (subst contains_error_unfold) simp
  next
    case (page_null_props ch nid cl msg)
    show ?thesis unfolding page_null_props(3) by (subst contains_error_unfold) simp
  next
    case (page_null_children p n s ct r nid cl msg)
    show ?thesis unfolding page_null_children(4) by (subst contains_error_unfold) simp
  next
    case (page p n s ct r ch cs nid cl)
    have k: "list_ex contains_error (fst (renderChildren cs 0)) \<longleftrightarrow> snd (renderChildren cs 0) \<noteq> []"
      by (rule renderChildren_ex, rule IH) (simp add: page(1,3) children_sub_nodes)
    have ct: "truthy_config ct \<Longrightarrow>
        contains_error (fst (renderComponent ct (- 3))) \<longleftrightarrow> snd (renderComponent ct (- 3)) \<noteq> []"
      by (rule IH) (simp add: page(1,2) content_sub_node)
    show ?thesis
      unfolding page(4)
      by (subst contains_error_unfold) (simp add: k ct bar)
  next
    case (regular_null_children t p nid cl Component msg)
    show ?thesis unfolding regular_null_children(5) by (subst contains_error_unfold) simp
  next
    case (regular t p ch cs nid cl Component)
    have k: "list_ex contains_error (fst (renderChildren cs 0)) \<longleftrightarrow> snd (renderChildren cs 0) \<noteq> []"
      by (rule renderChildren_ex, rule IH) (simp add: regular(1,4) children_sub_nodes)
    show ?thesis
      unfolding regular(5)
      by (subst contains_error_unfold) (auto simp: k)
  qed
qed


lemma renderBody_message:
  assumes "renderBody config index = (Inl error, errs)"
  shows "message error \<noteq> []"
proof -
  from assms have "snd (renderComponent config index) = errs @ [message error]"
    by (simp add: renderComponent_throws)
  with renderComponent_messages [of config index] show ?thesis by simp
qed

lemma LayoutEngine_ready:
  "isInitialized s \<Longrightarrow> error_flag s = None \<Longrightarrow> truthy_config (metadata_layout m) \<Longrightarrow>
     LayoutEngine s m = (Layout (fst (renderComponent (metadata_layout m) 0)),
                         snd (renderComponent (metadata_layout m) 0))"
  by (simp add: LayoutEngine_def map_prod_def split_def)

lemma LayoutEngine_layout:
  "LayoutEngine s m = (Layout el, errs) \<Longrightarrow>
     isInitialized s \<and> el = fst (renderComponent (metadata_layout m) 0)
     \<and> errs = snd (renderComponent (metadata_layout m) 0)"
  by (auto simp: LayoutEngine_def map_prod_def split_def split: if_splits option.splits)

lemma LayoutEngine_flagged:
  "isInitialized s \<Longrightarrow> errs \<noteq> [] \<Longrightarrow> last errs \<noteq> [] \<Longrightarrow>
     LayoutEngine (setRenderError s errs) m = (ErrorScreen (last errs), [])"
  by (simp add: LayoutEngine_def setRenderError_def error_flag_def)

lemma LayoutEngine_takeover:
  assumes "LayoutEngine s m = (Layout el, errs)"
  shows "(contains_error el \<longleftrightarrow> errs \<noteq> [])
     \<and> (errs \<noteq> [] \<longrightarrow> LayoutEngine (setRenderError s errs) m = (ErrorScreen (last errs), []))"
proof -
  note l = LayoutEngine_layout [OF assms]
  from l have iff: "contains_error el \<longleftrightarrow> errs \<noteq> []"
    by (simp add: renderComponent_contains_error)
  from l renderComponent_messages [of "metadata_layout m" 0]
  have "errs \<noteq> [] \<Longrightarrow> last errs \<noteq> []"
    by (auto simp: list_all_iff)
  with l iff show ?thesis
    by (auto intro: LayoutEngine_flagged)
qed

text \<open>The \<open>try\<close> block raises for exactly these nodes: \<open>undefined\<close> and \<open>null\<close>; a
  page node with \<open>null\<close> props; a node of a resolved type with \<open>null\<close> children.\<close>

lemma renderBody_raises_iff:
  "(\<exists>error errs. renderBody c i = (Inl error, errs)) \<longleftrightarrow>
     (case c of
        Config t p ch nid cl \<Rightarrow>
          lookup_component t \<noteq> None \<and> ((t = Val ''page'' \<and> p = Null_props) \<or> ch = Null)
      | _ \<Rightarrow> True)"
proof (cases c)
  case Undefined_config
  then show ?thesis by simp
next
  case Null_config
  then show ?thesis by simp
next
  case (Config t p ch nid cl)
  show ?thesis
  proof (cases "lookup_component t")
    case None
    with Config show ?thesis by (simp add: renderBody_unknown)
  next
    case (Some Component)
    show ?thesis
    proof (cases "t = Val ''page''")
      case True
      show ?thesis
      proof (cases "p = Null_props")
        case pn: True
        with Config True Some show ?thesis
          by (simp add: renderBody_page_null_props)
      next
        case False
        from default_props_cases [OF False] obtain n s ct r
          where dp: "default_props p = Props n s ct r" by blast
        show ?thesis
        proof (cases "ch = Null")
          case cn: True
          with Config True Some dp show ?thesis
            by (simp add: renderBody_page_null_children)
        next
          case cf: False
          then have "default_children ch = Val (child_nodes c)"
            unfolding Config by (rule default_children_cases)
          with Config True Some dp cf False show ?thesis
            by (simp add: renderBody_page)
        qed
      qed
    next
      case False
      show ?thesis
      proof (cases "ch = Null")
        case cn: True
        with Config False Some show ?thesis
          by (simp add: renderBody_regular_null_children)
      next
        case cf: False
        then have "default_children ch = Val (child_nodes c)"
          unfolding Config by (rule default_children_cases)
        with Config False Some cf show ?thesis
          by (simp add: renderBody_regular)
      qed
    qed
  qed
qed

text \<open>
  The exceptions of the \<open>try\<close> block are those of \<open>renderBody_raises_iff\<close>: the node or
  its children are \<open>null\<close>, or the props of a page are. For these the \<open>catch\<close> block does
  what it is written for. When the \<open>try\<close> block of \<open>renderComponent\<close> raises for a node, the call returns
  the "Rendering Error" diagnostic showing the (non-empty) message and hands the message
  to \<open>setRenderError\<close>; among its siblings the node is replaced by the diagnostic and the
  siblings before and after it render as they do on their own. Whenever an evaluation of
  \<open>LayoutEngine\<close> returns a layout, that layout holds a diagnostic of this kind exactly
  when an error was signalled, and then the next evaluation returns the full-screen error
  screen instead of the tree. Retry puts the state back to the one at mount: no error,
  not initialized, the loading skeleton showing.
\<close>

lemma render_error_boundary:
  assumes "renderBody config index = (Inl error, errs)"
  shows "renderComponent config index =
           (RenderingError (KeyIndex index) (message error), errs @ [message error])
       \<and> message error \<noteq> []
       \<and> (\<forall>s. error_flag (setRenderError s (snd (renderComponent config index)))
                = Some (message error))
       \<and> renderChildren (before @ config # after) (index - int (length before)) =
           (fst (renderChildren before (index - int (length before)))
              @ RenderingError (KeyIndex index) (message error)
              # fst (renderChildren after (index + 1)),
            snd (renderChildren before (index - int (length before)))
              @ errs @ [message error] @ snd (renderChildren after (index + 1)))
       \<and> (\<forall>s m el errs'. LayoutEngine s m = (Layout el, errs') \<longrightarrow>
             (contains_error el \<longleftrightarrow> errs' \<noteq> [])
             \<and> (errs' \<noteq> [] \<longrightarrow>
                  LayoutEngine (setRenderError s errs') m = (ErrorScreen (last errs'), [])))
       \<and> (\<forall>s m. retry s = initial_state \<and> LayoutEngine (retry s) m = (LoadingSkeleton, []))"
proof (intro conjI)
  from assms show r: "renderComponent config index =
           (RenderingError (KeyIndex index) (message error), errs @ [message error])"
    by (rule renderComponent_throws)
  from assms show m: "message error \<noteq> []" by (rule renderBody_message)
  from r m show "\<forall>s. error_flag (setRenderError s (snd (renderComponent config index)))
                = Some (message error)"
    by (simp add: setRenderError_def error_flag_def)
  show "renderChildren (before @ config # after) (index - int (length before)) =
           (fst (renderChildren before (index - int (length before)))
              @ RenderingError (KeyIndex index) (message error)
              # fst (renderChildren after (index + 1)),
            snd (renderChildren before (index - int (length before)))
              @ errs @ [message error] @ snd (renderChildren after (index + 1)))"
    by (simp add: renderChildren_append r)
  show "\<forall>s m el errs'. LayoutEngine s m = (Layout el, errs') \<longrightarrow>
             (contains_error el \<longleftrightarrow> errs' \<noteq> [])
             \<and> (errs' \<noteq> [] \<longrightarrow>
                  LayoutEngine (setRenderError s errs') m = (ErrorScreen (last errs'), []))"
    using LayoutEngine_takeover by blast
  show "\<forall>s m. retry s = initial_state \<and> LayoutEngine (retry s) m = (LoadingSkeleton, [])"
    by (simp add: retry_def initial_state_def LayoutEngine_def)
qed


lemma lookup_container: "lookup_component (Val ''container'') = Some Container"
  by (simp add: lookup_component_def componentMap_def property_key_def)

lemma render_error_boundary_example:
  "renderBody Null_config 1 = (Inl (cannot_destructure ''type'' ''config'' ''null''), [])
   \<and> renderChildren [card_node ''a'', Null_config, card_node ''b''] 0 =
       ([fst (renderComponent (card_node ''a'') 0), RenderingError (KeyIndex 1) null_message,
         fst (renderComponent (card_node ''b'') 2)],
        [null_message])
   \<and> LayoutEngine (timer_fired initial_state)
        (Val \<lparr>layout = broken_container, theme = JUndefined, metadata = JUndefined\<rparr>) =
       (Layout (ComponentElement Container (KeyIndex 0) Undefined empty_props
                  (Some [fst (renderComponent (card_node ''a'') 0),
                         RenderingError (KeyIndex 1) null_message,
                         fst (renderComponent (card_node ''b'') 2)])),
        [null_message])
   \<and> contains_error (ComponentElement Container (KeyIndex 0) Undefined empty_props
                  (Some [fst (renderComponent (card_node ''a'') 0),
                         RenderingError (KeyIndex 1) null_message,
                         fst (renderComponent (card_node ''b'') 2)]))
   \<and> LayoutEngine (setRenderError (timer_fired initial_state) [null_message])
        (Val \<lparr>layout = broken_container, theme = JUndefined, metadata = JUndefined\<rparr>) =
       (ErrorScreen null_message, [])
   \<and> retry (setRenderError (timer_fired initial_state) [null_message]) = initial_state"
proof -
  let ?m = "Val \<lparr>layout = broken_container, theme = JUndefined, metadata = JUndefined\<rparr>"
  let ?s = "timer_fired initial_state"
  let ?kids = "[fst (renderComponent (card_node ''a'') 0), RenderingError (KeyIndex 1) null_message,
         fst (renderComponent (card_node ''b'') 2)]"
  have h: "renderBody Null_config 1 = (Inl (cannot_destructure ''type'' ''config'' ''null''), [])"
    by simp
  note b = render_error_boundary [OF h, of "[card_node ''a'']" "[card_node ''b'']"]
  from b have kids: "renderChildren [card_node ''a'', Null_config, card_node ''b''] 0 = (?kids, [null_message])"
    by (simp add: null_message_def renderComponent_card_node)
  have root: "renderComponent broken_container 0 =
      (ComponentElement Container (KeyIndex 0) Undefined empty_props (Some ?kids), [null_message])"
    unfolding broken_container_def
    by (subst renderComponent.simps)
       (simp add: renderBody_regular [OF lookup_container, of _ "[card_node ''a'', Null_config, card_node ''b'']"]
                  default_children_def default_props_def empty_props_def key_of_def kids
             del: renderChildren_Cons)
  have ready: "isInitialized ?s" "error_flag ?s = None"
    by (simp_all add: timer_fired_def initial_state_def error_flag_def)
  have pass: "LayoutEngine ?s ?m =
      (Layout (ComponentElement Container (KeyIndex 0) Undefined empty_props (Some ?kids)),
       [null_message])"
  proof -
    have t: "truthy_config (metadata_layout ?m)"
      by (simp add: metadata_layout_def broken_container_def)
    from LayoutEngine_ready [OF ready t] root show ?thesis
      by (simp add: metadata_layout_def)
  qed
  from b pass have "contains_error (ComponentElement Container (KeyIndex 0) Undefined empty_props
                  (Some ?kids))"
    and "LayoutEngine (setRenderError ?s [null_message]) ?m = (ErrorScreen null_message, [])"
    and "retry (setRenderError ?s [null_message]) = initial_state"
    by (force+)
  with h kids pass show ?thesis by simp
qed

subsection \<open>Exceptions in a renderer\<close>

text \<open>
  C1. A node whose renderer throws is to be caught at the node: a diagnostic in its
  place, the error flag set. The \<open>try\<close> block of \<open>renderComponent\<close> only builds the
  element, and the renderer runs after \<open>renderComponent\<close> has returned, outside the
  \<open>try\<close> block. For the sidebar whose items hold \<open>null\<close> the body of \<open>Sidebar\<close> throws the
  TypeError of reading \<open>icon\<close> of \<open>null\<close>, yet \<open>renderComponent\<close> returns the sidebar
  element between its two siblings, the returned layout holds no diagnostic, no message
  is handed to \<open>setRenderError\<close>, and the state is left without an error, so that the
  next evaluation returns the same layout and not the error screen.
\<close>

theorem renderer_exception_not_caught:
  "Sidebar_body null_item_props = Inl (cannot_read ''null'' ''icon'')
   \<and> renderComponent null_item_container 0 =
       (ComponentElement Container (KeyIndex 0) Undefined empty_props
          (Some [ComponentElement Card (KeyIndex 0) Undefined
                   (Props Undefined_props Undefined_props Undefined_config
                      [(''title'', JStr ''a'')])
                   None,
                 ComponentElement Sidebar (KeyIndex 1) Undefined null_item_props None,
                 ComponentElement Card (KeyIndex 2) Undefined
                   (Props Undefined_props Undefined_props Undefined_config
                      [(''title'', JStr ''b'')])
                   None]),
        [])
   \<and> \<not> contains_error (fst (renderComponent null_item_container 0))
   \<and> LayoutEngine (timer_fired initial_state) null_item_metadata =
       (Layout (fst (renderComponent null_item_container 0)), [])
   \<and> setRenderError (timer_fired initial_state)
         (snd (LayoutEngine (timer_fired initial_state) null_item_metadata)) =
       timer_fired initial_state"
  by code_simp

subsection \<open>Rendering twice\<close>

lemma LayoutEngine_errors_layout:
  "snd (LayoutEngine s m) \<noteq> [] \<Longrightarrow> \<exists>el. fst (LayoutEngine s m) = Layout el"
  by (auto simp: LayoutEngine_def split: if_splits option.splits)

text \<open>
  C9, amended. An evaluation of \<open>LayoutEngine\<close> is a function of the metadata and the
  two state cells. A second evaluation, after the \<open>setRenderError\<close> calls of the first
  have taken effect and with nothing else changed, returns the same as the first exactly
  when the first signalled no error, which for a layout means that it holds no
  "Rendering Error" diagnostic. Otherwise the second evaluation returns the full-screen
  error screen with the last message.
\<close>

theorem render_twice:
  "(LayoutEngine (setRenderError s (snd (LayoutEngine s m))) m = LayoutEngine s m
      \<longleftrightarrow> snd (LayoutEngine s m) = [])
   \<and> (snd (LayoutEngine s m) \<noteq> [] \<longrightarrow>
        LayoutEngine (setRenderError s (snd (LayoutEngine s m))) m =
          (ErrorScreen (last (snd (LayoutEngine s m))), []))
   \<and> (\<forall>el. fst (LayoutEngine s m) = Layout el \<longrightarrow>
        (snd (LayoutEngine s m) = [] \<longleftrightarrow> \<not> contains_error el))"
proof -
  let ?errs = "snd (LayoutEngine s m)"
  have same: "?errs = [] \<Longrightarrow> LayoutEngine (setRenderError s ?errs) m = LayoutEngine s m"
    by (simp add: setRenderError_def)
  have diff: "LayoutEngine (setRenderError s ?errs) m = (ErrorScreen (last ?errs), [])"
    if ne: "?errs \<noteq> []"
  proof -
    from LayoutEngine_errors_layout [OF ne] obtain el where "fst (LayoutEngine s m) = Layout el"
      by blast
    then have "LayoutEngine s m = (Layout el, ?errs)"
      by (simp add: prod_eq_iff)
    from LayoutEngine_takeover [OF this] ne show ?thesis by simp
  qed
  have third: "snd (LayoutEngine s m) = [] \<longleftrightarrow> \<not> contains_error el"
    if l: "fst (LayoutEngine s m) = Layout el" for el
  proof -
    from l have "LayoutEngine s m = (Layout el, ?errs)"
      by (simp add: prod_eq_iff)
    from LayoutEngine_takeover [OF this] show ?thesis by simp
  qed
  from same diff third show ?thesis
    by (cases "?errs = []") (auto simp: prod_eq_iff)
qed

lemma broken_first_pass:
  "LayoutEngine (timer_fired initial_state) broken_metadata =
     (Layout (ComponentElement Container (KeyIndex 0) Undefined empty_props
                (Some [fst (renderComponent (card_node ''a'') 0),
                       RenderingError (KeyIndex 1) null_message,
                       fst (renderComponent (card_node ''b'') 2)])),
      [null_message])"
  by code_simp

lemma broken_second_pass:
  "LayoutEngine (setRenderError (timer_fired initial_state) [null_message]) broken_metadata =
     (ErrorScreen null_message, [])"
  by code_simp

text \<open>
  C9, as the claim has it, fails for metadata with a node that raises: the first
  evaluation returns the tree with the diagnostic in place of the \<open>null\<close> child, the
  second the full-screen error screen.
\<close>

theorem render_twice_differs:
  "fst (LayoutEngine (timer_fired initial_state) broken_metadata) =
     Layout (ComponentElement Container (KeyIndex 0) Undefined empty_props
                (Some [fst (renderComponent (card_node ''a'') 0),
                       RenderingError (KeyIndex 1) null_message,
                       fst (renderComponent (card_node ''b'') 2)]))
   \<and> fst (LayoutEngine
            (setRenderError (timer_fired initial_state)
               (snd (LayoutEngine (timer_fired initial_state) broken_metadata)))
            broken_metadata) =
       ErrorScreen null_message"
  by (simp add: broken_first_pass broken_second_pass)


lemma example_first_pass: "snd (LayoutEngine (timer_fired initial_state) example_metadata) = []"
  by code_simp

theorem render_twice_witness:
  "snd (LayoutEngine (timer_fired initial_state) example_metadata) = []
   \<and> LayoutEngine
        (setRenderError (timer_fired initial_state)
           (snd (LayoutEngine (timer_fired initial_state) example_metadata)))
        example_metadata =
      LayoutEngine (timer_fired initial_state) example_metadata
   \<and> snd (LayoutEngine (timer_fired initial_state) broken_metadata) = [null_message]
   \<and> LayoutEngine
        (setRenderError (timer_fired initial_state)
           (snd (LayoutEngine (timer_fired initial_state) broken_metadata)))
        broken_metadata =
      (ErrorScreen null_message, [])
   \<and> (case fst (LayoutEngine (timer_fired initial_state) broken_metadata) of
         Layout el \<Rightarrow> contains_error el
       | _ \<Rightarrow> False)"
proof -
  let ?s = "timer_fired initial_state"
  have b: "snd (LayoutEngine ?s broken_metadata) = [null_message]"
    by (simp add: broken_first_pass)
  from render_twice [of ?s example_metadata] example_first_pass
  have one: "LayoutEngine (setRenderError ?s (snd (LayoutEngine ?s example_metadata)))
               example_metadata = LayoutEngine ?s example_metadata"
    by blast
  from render_twice [of ?s broken_metadata] b
  have two: "LayoutEngine (setRenderError ?s (snd (LayoutEngine ?s broken_metadata)))
               broken_metadata = (ErrorScreen null_message, [])"
    by simp
  obtain el where el: "fst (LayoutEngine ?s broken_metadata) = Layout el"
    by (simp add: broken_first_pass)
  with render_twice [of ?s broken_metadata] b have "contains_error el" by simp
  with el example_first_pass one b two show ?thesis by simp
qed

end
